theory Spec2Isabelle
  imports Main "HOL-Library.Word"
begin


section \<open>JavaScript values, objects and numbers\<close>

text \<open>
  The values that cross the client's interface: what a response callback may return
  (\<^verbatim>\<open>Promisable<void> | boolean\<close> in the typed client, anything in the untyped one) and
  what the fields of a request object hold. A promise carries the value it resolves to.
\<close>

datatype js_value =
    JUndefined
  | JNull
  | JBool bool
  | JNumber int
  | JNaN
  | JString string
  | JObject "(string \<times> js_value) list"
  | JPromise js_value

text \<open>ECMAScript \<^verbatim>\<open>ToBoolean\<close>: what \<^verbatim>\<open>if (result)\<close> tests.\<close>

fun truthy :: "js_value \<Rightarrow> bool" where
  "truthy JUndefined = False"
| "truthy JNull = False"
| "truthy (JBool b) = b"
| "truthy (JNumber n) = (n \<noteq> 0)"
| "truthy JNaN = False"
| "truthy (JString s) = (s \<noteq> [])"
| "truthy (JObject ps) = True"
| "truthy (JPromise v) = True"

text \<open>
  An object is the list of its own properties in insertion order. Defining a property
  that exists replaces its value in place; \<^verbatim>\<open>{...base, ...data}\<close> defines the properties
  of \<^verbatim>\<open>data\<close>, in order, on a copy of \<^verbatim>\<open>base\<close>.
\<close>

type_synonym js_object = "(string \<times> js_value) list"

fun obj_set :: "string \<Rightarrow> js_value \<Rightarrow> js_object \<Rightarrow> js_object" where
  "obj_set k v [] = [(k, v)]"
| "obj_set k v ((k', v') # ps) =
     (if k = k' then (k, v) # ps else (k', v') # obj_set k v ps)"

fun spread :: "js_object \<Rightarrow> js_object \<Rightarrow> js_object" where
  "spread base [] = base"
| "spread base ((k, v) # ps) = spread (obj_set k v base) ps"

definition obj_get :: "js_object \<Rightarrow> string \<Rightarrow> js_value option" where
  "obj_get ob k = map_of ob k"

text \<open>
  The sequence counter is a JavaScript number that starts at 0 and only ever changes by
  \<^verbatim>\<open>++this.seq\<close>. Every integer up to \<open>2 ^ 53\<close> is a double and is counted exactly;
  \<open>2 ^ 53 + 1\<close> is not a double and rounds (ties to even) back to \<open>2 ^ 53\<close>, so
  the counter stays there. Values above \<open>2 ^ 53\<close> are never reached from 0.
\<close>

definition js_increment :: "nat \<Rightarrow> nat" where
  "js_increment n = (if n < 2 ^ 53 then n + 1 else n)"

datatype js_error = TypeError | SyntaxError | CodecError | Error string

text \<open>
  A call either returns or throws; a throw leaves the client in the state it had reached.
\<close>

datatype 'w outcome = Returns 'w | Throws js_error 'w

fun state_of :: "'w outcome \<Rightarrow> 'w" where
  "state_of (Returns w) = w"
| "state_of (Throws e w) = w"

fun returns :: "'w outcome \<Rightarrow> bool" where
  "returns (Returns w) = True"
| "returns (Throws e w) = False"

text \<open>A call of a callback: the value it returned or the exception it threw.\<close>

datatype 'w called = Returned js_value 'w | Threw js_error 'w

fun called_state :: "'w called \<Rightarrow> 'w" where
  "called_state (Returned v w) = w"
| "called_state (Threw e w) = w"

datatype 'a nullable = Undefined | Null | Ref 'a

text \<open>\<^verbatim>\<open>if (x)\<close> on a reference and \<^verbatim>\<open>x != null\<close> agree: both fail on null and undefined.\<close>

fun present :: "'a nullable \<Rightarrow> bool" where
  "present (Ref x) = True"
| "present Undefined = False"
| "present Null = False"

text \<open>\<^verbatim>\<open>!x\<close> on a reference.\<close>

fun absent :: "'a nullable \<Rightarrow> bool" where
  "absent (Ref x) = False"
| "absent Undefined = True"
| "absent Null = True"

section \<open>Transport, codec and messages\<close>

type_synonym bytes = "8 word list"

datatype ready_state = CONNECTING | OPEN | CLOSING | CLOSED

record web_socket =
  url :: string
  readyState :: ready_state

text \<open>Reading a member of \<^verbatim>\<open>this.websocket\<close> throws when the field holds no object.\<close>

fun member :: "'a nullable \<Rightarrow> js_error + 'a" where
  "member (Ref x) = Inr x"
| "member Undefined = Inl TypeError"
| "member Null = Inl TypeError"

text \<open>
  The transport is the ws library's \<^verbatim>\<open>WebSocket\<close>, not part of the client. Its
  \<^verbatim>\<open>send\<close>, called as the client calls it (no callback), throws while the handle is
  still connecting, puts the frame on the wire when the handle is open, and drops it
  when the handle is closing or closed. The result is the exception or the frames that
  go out.
\<close>

definition not_open :: js_error where
  "not_open = Error ''WebSocket is not open: readyState 0 (CONNECTING)''"

fun ws_send :: "web_socket \<Rightarrow> bytes \<Rightarrow> js_error + bytes list" where
  "ws_send ws data =
     (case readyState ws of
        CONNECTING \<Rightarrow> Inl not_open
      | OPEN \<Rightarrow> Inr [data]
      | CLOSING \<Rightarrow> Inr []
      | CLOSED \<Rightarrow> Inr [])"

datatype app_error = AppError string

record app_response =
  resp_seq :: nat
  resp_error :: "app_error option"
  resp_body :: js_object

record app_message =
  response :: "app_response option"
  broadcast :: "js_object option"

text \<open>
  The generated protobuf types are not part of the client: the codec is a parameter.
  \<^verbatim>\<open>toBinary\<close> throws on an object the schema rejects (a sequence number that is no
  32-bit unsigned integer, a field of the wrong kind) and \<^verbatim>\<open>fromBinary\<close> of a frame
  throws on malformed bytes: \<open>None\<close> is the throw. The request's \<^verbatim>\<open>fromBinary\<close> only
  ever reads bytes that \<^verbatim>\<open>toBinary\<close> has just made.
\<close>

record request_type =
  toBinary :: "js_object \<Rightarrow> bytes option"
  fromBinary :: "bytes \<Rightarrow> js_object"

record message_type =
  msg_fromBinary :: "bytes \<Rightarrow> app_message option"

text \<open>
  What the client imports: the two types of \<^verbatim>\<open>./proto\<close>, and the \<^verbatim>\<open>WebSocket\<close>
  constructor of ws, which throws on an address that is no valid URL (\<open>valid_url\<close>
  says which addresses it takes).
\<close>

record environment =
  Proto_AppRequest :: request_type
  Proto_AppMessage :: message_type
  valid_url :: "string \<Rightarrow> bool"

section \<open>Client state\<close>

text \<open>
  A registered callback is either a function supplied by the caller, which returns a
  value or throws, or the closure that \<^verbatim>\<open>sendRequestAsync\<close> builds, identified by the
  promise and timer it captures.
\<close>

datatype callback =
    UserCallback "app_message \<Rightarrow> js_error + js_value"
  | AsyncCallback nat

datatype reason = Exception js_error | Server app_error

datatype promise_state = Pending | Fulfilled app_response | Rejected reason

datatype timer_state = Armed int | Cleared | Fired

record async_call =
  promise :: promise_state
  timer :: timer_state

datatype event =
    Connecting
  | Connected
  | Disconnected
  | ErrorEvent js_value
  | Message app_message
  | Request js_object

datatype effect =
    Emit event
  | WsNew string
  | WsSend bytes
  | WsTerminate
  | Invoke nat app_message

text \<open>
  The fields of class \<^verbatim>\<open>RustPlus\<close> (\<open>p_playerId\<close> and \<open>p_playerToken\<close> are the private
  \<^verbatim>\<open>_playerId\<close> and \<^verbatim>\<open>_playerToken\<close>), followed by what the client does to its
  environment: the promises and timers it has created and the trace of its effects
  (\<open>WsSend\<close> is a frame that went out).
\<close>

record ('rq, 'ms) rustplus =
  seq :: nat
  seqCallbacks :: "nat \<rightharpoonup> callback"
  server :: string
  port :: string
  playerId :: string
  playerToken :: string
  p_playerId :: js_value
  p_playerToken :: js_value
  useFacepunchProxy :: bool
  websocket :: "web_socket nullable"
  AppRequest :: "'rq option"
  AppMessage :: "'ms option"
  asyncs :: "nat \<rightharpoonup> async_call"
  allocated :: nat
  trace :: "effect list"

type_synonym client = "(request_type, message_type) rustplus"

definition emit :: "('rq, 'ms) rustplus \<Rightarrow> event \<Rightarrow> ('rq, 'ms) rustplus" where
  "emit w e = w\<lparr>trace := trace w @ [Emit e]\<rparr>"

section \<open>The typed client (src/rustplus.ts)\<close>

text \<open>
  \<^verbatim>\<open>String(playerId)\<close> of a string is the string; \<^verbatim>\<open>Number(playerToken)\<close> is the
  language's conversion, taken as the parameter \<open>num\<close>. An omitted
  \<^verbatim>\<open>useFacepunchProxy\<close> defaults to false.
\<close>

definition constructor ::
  "(string \<Rightarrow> js_value) \<Rightarrow> string \<Rightarrow> string \<Rightarrow> string \<Rightarrow> string \<Rightarrow> bool option \<Rightarrow> client" where
  "constructor num srv prt pid ptok proxy =
     \<lparr> seq = 0,
       seqCallbacks = Map.empty,
       server = srv,
       port = prt,
       playerId = pid,
       playerToken = ptok,
       p_playerId = JString pid,
       p_playerToken = num ptok,
       useFacepunchProxy = (case proxy of None \<Rightarrow> False | Some b \<Rightarrow> b),
       websocket = Undefined,
       AppRequest = None,
       AppMessage = None,
       asyncs = Map.empty,
       allocated = 0,
       trace = [] \<rparr>"

definition disconnect :: "('rq, 'ms) rustplus \<Rightarrow> ('rq, 'ms) rustplus outcome" where
  "disconnect w =
     (if present (websocket w) then
        (case member (websocket w) of
           Inl e \<Rightarrow> Throws e w
         | Inr ws \<Rightarrow> Returns (w\<lparr>trace := trace w @ [WsTerminate], websocket := Null\<rparr>))
      else Returns w)"

definition address_of :: "('rq, 'ms) rustplus \<Rightarrow> string" where
  "address_of w =
     (if useFacepunchProxy w
      then ''wss://companion-rust.facepunch.com/game/'' @ server w @ ''/'' @ port w
      else ''ws://'' @ server w @ '':'' @ port w)"

text \<open>
  \<^verbatim>\<open>connect\<close>: when \<^verbatim>\<open>new WebSocket(address)\<close> throws, the codec is loaded and
  \<^verbatim>\<open>connecting\<close> has been emitted, and the field keeps what it held.
\<close>

definition connect :: "environment \<Rightarrow> client \<Rightarrow> client outcome" where
  "connect P w =
     (case (if present (websocket w) then disconnect w else Returns w) of
        Throws e w' \<Rightarrow> Throws e w'
      | Returns w1 \<Rightarrow>
          (let w2 = w1\<lparr>AppRequest := Some (Proto_AppRequest P),
                       AppMessage := Some (Proto_AppMessage P)\<rparr>;
               w3 = emit w2 Connecting;
               address = address_of w3
           in if valid_url P address
              then Returns (w3\<lparr>trace := trace w3 @ [WsNew address],
                               websocket := Ref \<lparr>url = address, readyState = CONNECTING\<rparr>\<rparr>)
              else Throws SyntaxError w3))"

definition isConnected :: "('rq, 'ms) rustplus \<Rightarrow> js_error + bool" where
  "isConnected w =
     (if present (websocket w) then
        (case member (websocket w) of
           Inl e \<Rightarrow> Inl e
         | Inr ws \<Rightarrow> Inr (readyState ws = OPEN))
      else Inr False)"

text \<open>The handlers that \<^verbatim>\<open>connect\<close> registers for open, error and close.\<close>

definition on_open :: "('rq, 'ms) rustplus \<Rightarrow> ('rq, 'ms) rustplus" where
  "on_open w = emit w Connected"

definition on_error :: "('rq, 'ms) rustplus \<Rightarrow> js_value \<Rightarrow> ('rq, 'ms) rustplus" where
  "on_error w e = emit w (ErrorEvent e)"

definition on_close :: "('rq, 'ms) rustplus \<Rightarrow> ('rq, 'ms) rustplus" where
  "on_close w = emit w Disconnected"

subsection \<open>Promises and timers\<close>

text \<open>
  The language's promise: the first call of \<^verbatim>\<open>resolve\<close> or \<^verbatim>\<open>reject\<close> settles it, a
  later call does nothing. \<^verbatim>\<open>clearTimeout\<close> disarms a timer that is still armed and does
  nothing otherwise.
\<close>

definition settle :: "nat \<Rightarrow> promise_state \<Rightarrow> ('rq, 'ms) rustplus \<Rightarrow> ('rq, 'ms) rustplus" where
  "settle a p w =
     (case asyncs w a of
        None \<Rightarrow> w
      | Some c \<Rightarrow>
          (if promise c = Pending then w\<lparr>asyncs := (asyncs w)(a \<mapsto> c\<lparr>promise := p\<rparr>)\<rparr> else w))"

definition resolve :: "nat \<Rightarrow> app_response \<Rightarrow> ('rq, 'ms) rustplus \<Rightarrow> ('rq, 'ms) rustplus" where
  "resolve a r w = settle a (Fulfilled r) w"

definition reject :: "nat \<Rightarrow> reason \<Rightarrow> ('rq, 'ms) rustplus \<Rightarrow> ('rq, 'ms) rustplus" where
  "reject a e w = settle a (Rejected e) w"

definition clearTimeout :: "nat \<Rightarrow> ('rq, 'ms) rustplus \<Rightarrow> ('rq, 'ms) rustplus" where
  "clearTimeout a w =
     (case asyncs w a of
        None \<Rightarrow> w
      | Some c \<Rightarrow>
          (case timer c of
             Armed d \<Rightarrow> w\<lparr>asyncs := (asyncs w)(a \<mapsto> c\<lparr>timer := Cleared\<rparr>)\<rparr>
           | Cleared \<Rightarrow> w
           | Fired \<Rightarrow> w))"

text \<open>The function given to \<^verbatim>\<open>setTimeout\<close>; the runtime runs it only for an armed timer.\<close>

definition timer_fires :: "nat \<Rightarrow> ('rq, 'ms) rustplus \<Rightarrow> ('rq, 'ms) rustplus" where
  "timer_fires a w =
     (case asyncs w a of
        None \<Rightarrow> w
      | Some c \<Rightarrow>
          (case timer c of
             Armed d \<Rightarrow>
               reject a (Exception (Error ''Timeout reached while waiting for response''))
                 (w\<lparr>asyncs := (asyncs w)(a \<mapsto> c\<lparr>timer := Fired\<rparr>)\<rparr>)
           | Cleared \<Rightarrow> w
           | Fired \<Rightarrow> w))"

text \<open>
  The callback of \<^verbatim>\<open>sendRequestAsync\<close>: cancel the timeout, then reject with the
  response's error or resolve with the response. It has no return statement.
\<close>

definition async_callback ::
  "nat \<Rightarrow> app_message \<Rightarrow> ('rq, 'ms) rustplus \<Rightarrow> ('rq, 'ms) rustplus called" where
  "async_callback a message w =
     (let w1 = clearTimeout a w
      in case response message of
           None \<Rightarrow> Threw TypeError w1
         | Some r \<Rightarrow>
             (case resp_error r of
                Some e \<Rightarrow> Returned JUndefined (reject a (Server e) w1)
              | None \<Rightarrow> Returned JUndefined (resolve a r w1)))"

text \<open>
  Calling the callback stored under key \<open>k\<close>. A caller's function returns a value or
  throws; what else it does is its own business and not part of the client.
\<close>

definition invoke ::
  "nat \<Rightarrow> callback \<Rightarrow> app_message \<Rightarrow> ('rq, 'ms) rustplus \<Rightarrow> ('rq, 'ms) rustplus called" where
  "invoke k cb message w =
     (let w1 = w\<lparr>trace := trace w @ [Invoke k message]\<rparr>
      in case cb of
           UserCallback f \<Rightarrow>
             (case f message of
                Inl e \<Rightarrow> Threw e w1
              | Inr v \<Rightarrow> Returned v w1)
         | AsyncCallback a \<Rightarrow> async_callback a message w1)"

text \<open>
  The callback, called with \<open>m\<close>, returns \<open>v\<close>: said of the callback itself, whoever
  calls it. The closure of \<^verbatim>\<open>sendRequestAsync\<close> returns undefined when \<open>m\<close> is a response.
\<close>

definition callback_returns :: "callback \<Rightarrow> app_message \<Rightarrow> js_value \<Rightarrow> bool" where
  "callback_returns cb m v =
     (case cb of
        UserCallback f \<Rightarrow> f m = Inr v
      | AsyncCallback a \<Rightarrow> (case response m of None \<Rightarrow> False | Some r \<Rightarrow> v = JUndefined))"

subsection \<open>The message handler registered by connect\<close>

text \<open>
  \<^verbatim>\<open>message.response && message.response.seq && this.seqCallbacks[message.response.seq]\<close>:
  the entry the frame is matched with, if any. A sequence number 0 is falsy.
\<close>

definition matched :: "('rq, 'ms) rustplus \<Rightarrow> app_message \<Rightarrow> (nat \<times> callback) option" where
  "matched w message =
     (case response message of
        None \<Rightarrow> None
      | Some r \<Rightarrow>
          (if resp_seq r = 0 then None
           else (case seqCallbacks w (resp_seq r) of
                   None \<Rightarrow> None
                 | Some cb \<Rightarrow> Some (resp_seq r, cb))))"

definition emit_message :: "message_type \<Rightarrow> bytes \<Rightarrow> client \<Rightarrow> client outcome" where
  "emit_message mt data w =
     (case msg_fromBinary mt data of
        None \<Rightarrow> Throws CodecError w
      | Some m \<Rightarrow> Returns (emit w (Message m)))"

text \<open>
  The callback is called before its entry is deleted and nothing catches what it throws:
  an exception of the callback leaves the handler at once, the entry still registered.
\<close>

definition on_message :: "client \<Rightarrow> bytes \<Rightarrow> client outcome" where
  "on_message w data =
     (case AppMessage w of
        None \<Rightarrow> Returns w
      | Some mt \<Rightarrow>
          (case msg_fromBinary mt data of
             None \<Rightarrow> Throws CodecError w
           | Some message \<Rightarrow>
               (case matched w message of
                  Some (k, cb) \<Rightarrow>
                    (case invoke k cb message w of
                       Threw e w1 \<Rightarrow> Throws e w1
                     | Returned result w1 \<Rightarrow>
                         (let w2 = w1\<lparr>seqCallbacks := (seqCallbacks w1)(k := None)\<rparr>
                          in if truthy result then Returns w2
                             else emit_message mt data w2))
                | None \<Rightarrow> emit_message mt data w)))"

subsection \<open>sendRequest and sendRequestAsync\<close>

definition build_request :: "('rq, 'ms) rustplus \<Rightarrow> nat \<Rightarrow> js_object \<Rightarrow> js_object" where
  "build_request w currentSeq data =
     spread [(''seq'', JNumber (int currentSeq)),
             (''playerId'', p_playerId w),
             (''playerToken'', p_playerToken w)] data"

text \<open>
  After the guard the call counts and stores the callback; then \<^verbatim>\<open>toBinary\<close> and
  \<^verbatim>\<open>websocket.send\<close> may each throw, and nothing undoes the counting.
\<close>

definition sendRequest :: "client \<Rightarrow> js_object \<Rightarrow> callback option \<Rightarrow> client outcome" where
  "sendRequest w data cb =
     (if AppRequest w = None \<or> absent (websocket w) then Returns w
      else
        (let currentSeq = js_increment (seq w);
             w1 = w\<lparr>seq := currentSeq\<rparr>;
             w2 = (case cb of
                     None \<Rightarrow> w1
                   | Some c \<Rightarrow> w1\<lparr>seqCallbacks := (seqCallbacks w1)(currentSeq \<mapsto> c)\<rparr>)
         in case AppRequest w2 of
              None \<Rightarrow> Throws TypeError w2
            | Some rq \<Rightarrow>
                (case toBinary rq (build_request w2 currentSeq data) of
                   None \<Rightarrow> Throws CodecError w2
                 | Some request \<Rightarrow>
                     (case member (websocket w2) of
                        Inl e \<Rightarrow> Throws e w2
                      | Inr ws \<Rightarrow>
                          (case ws_send ws request of
                             Inl e \<Rightarrow> Throws e w2
                           | Inr out \<Rightarrow>
                               Returns (emit (w2\<lparr>trace := trace w2 @ map WsSend out\<rparr>)
                                          (Request (fromBinary rq request))))))))"

text \<open>
  \<^verbatim>\<open>new Promise(executor)\<close> runs the executor at once: it arms the timer and calls
  \<^verbatim>\<open>sendRequest\<close> with the callback above; an exception of the executor rejects the
  promise. The result is the new promise and the state. An omitted timeout is 10000.
\<close>

definition new_promise :: "int \<Rightarrow> ('rq, 'ms) rustplus \<Rightarrow> ('rq, 'ms) rustplus" where
  "new_promise ms w =
     w\<lparr>allocated := allocated w + 1,
       asyncs := (asyncs w)(allocated w \<mapsto> \<lparr>promise = Pending, timer = Armed ms\<rparr>)\<rparr>"

definition sendRequestAsync :: "client \<Rightarrow> js_object \<Rightarrow> int option \<Rightarrow> nat \<times> client" where
  "sendRequestAsync w data timeoutMilliseconds =
     (let ms = (case timeoutMilliseconds of None \<Rightarrow> 10000 | Some t \<Rightarrow> t);
          a = allocated w;
          w1 = new_promise ms w
      in case sendRequest w1 data (Some (AsyncCallback a)) of
           Returns w2 \<Rightarrow> (a, w2)
         | Throws e w2 \<Rightarrow> (a, reject a (Exception e) w2))"

subsection \<open>Runs of the client\<close>

text \<open>
  What can happen to a client: a call of its public interface, a signal of the transport,
  or a timer of the runtime firing. A signal belongs to the handle the client holds; the
  transport moves that handle's state to open before its open signal and to closed
  before its close signal. An exception reaches the caller and the state stays as it was
  at the throw.
\<close>

datatype action =
    Connect
  | Disconnect
  | SendRequest js_object "(app_message \<Rightarrow> js_error + js_value) option"
  | SendRequestAsync js_object "int option"
  | WsOpen
  | WsError js_value
  | WsMessage bytes
  | WsClose
  | TimerFires nat

definition transport_state :: "ready_state \<Rightarrow> ('rq, 'ms) rustplus \<Rightarrow> ('rq, 'ms) rustplus" where
  "transport_state r w =
     (case websocket w of
        Ref ws \<Rightarrow> w\<lparr>websocket := Ref (ws\<lparr>readyState := r\<rparr>)\<rparr>
      | Undefined \<Rightarrow> w
      | Null \<Rightarrow> w)"

fun step :: "environment \<Rightarrow> client \<Rightarrow> action \<Rightarrow> client" where
  "step P w Connect = state_of (connect P w)"
| "step P w Disconnect = state_of (disconnect w)"
| "step P w (SendRequest data f) = state_of (sendRequest w data (map_option UserCallback f))"
| "step P w (SendRequestAsync data t) = snd (sendRequestAsync w data t)"
| "step P w WsOpen = on_open (transport_state OPEN w)"
| "step P w (WsError e) = on_error w e"
| "step P w (WsMessage data) = state_of (on_message w data)"
| "step P w WsClose = on_close (transport_state CLOSED w)"
| "step P w (TimerFires a) = timer_fires a w"

definition run :: "environment \<Rightarrow> client \<Rightarrow> action list \<Rightarrow> client" where
  "run P w acts = foldl (step P) w acts"

text \<open>
  The sequence numbers a run of calls of \<^verbatim>\<open>sendRequest\<close> assigns: the value of
  \<^verbatim>\<open>currentSeq\<close> in each call, which is the counter right after it.
\<close>

fun assigned :: "client \<Rightarrow> (js_object \<times> callback option) list \<Rightarrow> nat list" where
  "assigned w [] = []"
| "assigned w ((data, cb) # rs) =
     (let w' = state_of (sendRequest w data cb) in seq w' # assigned w' rs)"


text \<open>The state of a call of \<^verbatim>\<open>sendRequest\<close> once it has counted and stored the callback.\<close>

definition registered :: "('rq, 'ms) rustplus \<Rightarrow> callback option \<Rightarrow> ('rq, 'ms) rustplus" where
  "registered w cb =
     (case cb of
        None \<Rightarrow> w\<lparr>seq := js_increment (seq w)\<rparr>
      | Some c \<Rightarrow> w\<lparr>seq := js_increment (seq w),
                    seqCallbacks := (seqCallbacks w)(js_increment (seq w) \<mapsto> c)\<rparr>)"



text \<open>
  What holds of the registry in every state a new client reaches: no callback is stored
  under 0, and one is stored only once \<^verbatim>\<open>connect\<close> has loaded the codec.
\<close>

definition registry_inv :: "environment \<Rightarrow> client \<Rightarrow> bool" where
  "registry_inv P w =
     (seqCallbacks w 0 = None
      \<and> (AppRequest w = None \<and> seqCallbacks w = Map.empty
         \<or> AppMessage w = Some (Proto_AppMessage P)))"


text \<open>How a response settles the promise waiting for it.\<close>

definition response_outcome :: "app_response \<Rightarrow> promise_state" where
  "response_outcome r =
     (case resp_error r of Some e \<Rightarrow> Rejected (Server e) | None \<Rightarrow> Fulfilled r)"


section \<open>The untyped client (rustplus.js)\<close>

text \<open>
  The JavaScript client the typed one was written from. Its codec is a protobufjs type:
  \<^verbatim>\<open>fromObject\<close> makes a message of a plain object and throws on a field of the wrong
  kind, \<^verbatim>\<open>encode(...).finish()\<close> gives the message's bytes, \<^verbatim>\<open>decode\<close> reads a frame.
  It has no \<^verbatim>\<open>_playerId\<close> and \<^verbatim>\<open>_playerToken\<close> (the two fields stay undefined), no
  \<^verbatim>\<open>disconnect\<close>, no \<^verbatim>\<open>isConnected\<close> and no \<^verbatim>\<open>sendRequestAsync\<close>.
\<close>

record pbjs_request_type =
  pb_fromObject :: "js_object \<Rightarrow> js_object option"
  pb_encode :: "js_object \<Rightarrow> bytes"

record pbjs_message_type =
  pb_decode :: "bytes \<Rightarrow> app_message option"

record pbjs_root =
  lookup_AppRequest :: pbjs_request_type
  lookup_AppMessage :: pbjs_message_type

type_synonym js_client = "(pbjs_request_type, pbjs_message_type) rustplus"

text \<open>
  The constructor ends with \<^verbatim>\<open>this.connect()\<close>, which only starts loading the schema;
  \<open>proto_loaded\<close> is what \<^verbatim>\<open>connect\<close> does once the schema \<open>root\<close> is there, \<open>valid\<close>
  saying which addresses \<^verbatim>\<open>new WebSocket\<close> takes.
\<close>

definition constructor_js :: "string \<Rightarrow> string \<Rightarrow> string \<Rightarrow> string \<Rightarrow> bool option \<Rightarrow> js_client" where
  "constructor_js srv prt pid ptok proxy =
     \<lparr> seq = 0,
       seqCallbacks = Map.empty,
       server = srv,
       port = prt,
       playerId = pid,
       playerToken = ptok,
       p_playerId = JUndefined,
       p_playerToken = JUndefined,
       useFacepunchProxy = (case proxy of None \<Rightarrow> False | Some b \<Rightarrow> b),
       websocket = Undefined,
       AppRequest = None,
       AppMessage = None,
       asyncs = Map.empty,
       allocated = 0,
       trace = [] \<rparr>"

definition proto_loaded :: "(string \<Rightarrow> bool) \<Rightarrow> pbjs_root \<Rightarrow> js_client \<Rightarrow> js_client outcome" where
  "proto_loaded valid root w =
     (let w1 = w\<lparr>AppRequest := Some (lookup_AppRequest root),
                  AppMessage := Some (lookup_AppMessage root)\<rparr>;
          w2 = emit w1 Connecting;
          address = address_of w2
      in if valid address
         then Returns (w2\<lparr>trace := trace w2 @ [WsNew address],
                          websocket := Ref \<lparr>url = address, readyState = CONNECTING\<rparr>\<rparr>)
         else Throws SyntaxError w2)"

definition emit_message_js :: "pbjs_message_type \<Rightarrow> bytes \<Rightarrow> js_client \<Rightarrow> js_client outcome" where
  "emit_message_js mt data w =
     (case pb_decode mt data of
        None \<Rightarrow> Throws CodecError w
      | Some m \<Rightarrow> Returns (emit w (Message m)))"

definition on_message_js :: "js_client \<Rightarrow> bytes \<Rightarrow> js_client outcome" where
  "on_message_js w data =
     (case AppMessage w of
        None \<Rightarrow> Throws TypeError w
      | Some mt \<Rightarrow>
          (case pb_decode mt data of
             None \<Rightarrow> Throws CodecError w
           | Some message \<Rightarrow>
               (case matched w message of
                  Some (k, cb) \<Rightarrow>
                    (case invoke k cb message w of
                       Threw e w1 \<Rightarrow> Throws e w1
                     | Returned result w1 \<Rightarrow>
                         (let w2 = w1\<lparr>seqCallbacks := (seqCallbacks w1)(k := None)\<rparr>
                          in if truthy result then Returns w2
                             else emit_message_js mt data w2))
                | None \<Rightarrow> emit_message_js mt data w)))"

definition payload_js :: "js_client \<Rightarrow> nat \<Rightarrow> js_object \<Rightarrow> js_object" where
  "payload_js w currentSeq data =
     spread [(''seq'', JNumber (int currentSeq)),
             (''playerId'', JString (playerId w)),
             (''playerToken'', JString (playerToken w))] data"

text \<open>
  \<^verbatim>\<open>sendRequest\<close> has no guard here: without a codec or a handle it throws, after it
  has counted and stored the callback.
\<close>

definition sendRequest_js :: "js_client \<Rightarrow> js_object \<Rightarrow> callback option \<Rightarrow> js_client outcome" where
  "sendRequest_js w data cb =
     (let currentSeq = js_increment (seq w);
          w1 = w\<lparr>seq := currentSeq\<rparr>;
          w2 = (case cb of
                  None \<Rightarrow> w1
                | Some c \<Rightarrow> w1\<lparr>seqCallbacks := (seqCallbacks w1)(currentSeq \<mapsto> c)\<rparr>);
          payload = payload_js w2 currentSeq data
      in case AppRequest w2 of
           None \<Rightarrow> Throws TypeError w2
         | Some rq \<Rightarrow>
             (case pb_fromObject rq payload of
                None \<Rightarrow> Throws TypeError w2
              | Some message \<Rightarrow>
                  (case member (websocket w2) of
                     Inl e \<Rightarrow> Throws e w2
                   | Inr ws \<Rightarrow>
                       (case ws_send ws (pb_encode rq message) of
                          Inl e \<Rightarrow> Throws e w2
                        | Inr out \<Rightarrow>
                            Returns (emit (w2\<lparr>trace := trace w2 @ map WsSend out\<rparr>)
                                       (Request message))))))"

section \<open>A small codec and client for concrete runs\<close>

text \<open>
  A codec that takes a request whose sequence number is a 32-bit unsigned integer and
  puts the number and the player token on the wire as one byte each, and that reads a
  frame's first byte as a response's sequence number and a second byte, if there is
  one, as its error. Every address is taken.
\<close>

definition byte_of :: "js_value option \<Rightarrow> 8 word" where
  "byte_of v = (case v of Some (JNumber n) \<Rightarrow> word_of_int n | _ \<Rightarrow> 0)"

definition response_message :: "nat \<Rightarrow> app_error option \<Rightarrow> app_message" where
  "response_message k e =
     \<lparr> response = Some \<lparr> resp_seq = k, resp_error = e, resp_body = [] \<rparr>, broadcast = None \<rparr>"

definition example_toBinary :: "js_object \<Rightarrow> bytes option" where
  "example_toBinary ob =
     (case obj_get ob ''seq'' of
        Some (JNumber n) \<Rightarrow>
          (if 0 \<le> n \<and> n < 2 ^ 32
           then Some [word_of_int n, byte_of (obj_get ob ''playerToken'')]
           else None)
      | _ \<Rightarrow> None)"

definition example_proto :: environment where
  "example_proto =
     \<lparr> Proto_AppRequest =
         \<lparr> toBinary = example_toBinary,
           fromBinary = (\<lambda>bs. case bs of
                            [] \<Rightarrow> []
                          | b # _ \<Rightarrow> [(''seq'', JNumber (uint b))]) \<rparr>,
       Proto_AppMessage =
         \<lparr> msg_fromBinary = (\<lambda>bs. case bs of
                            [] \<Rightarrow> None
                          | [b] \<Rightarrow> Some (response_message (unat b) None)
                          | b # _ \<Rightarrow> Some (response_message (unat b)
                                               (Some (AppError ''not_found'')))) \<rparr>,
       valid_url = (\<lambda>address. True) \<rparr>"

definition example_client :: client where
  "example_client = constructor (\<lambda>s. JNumber 7) ''localhost'' ''28082'' ''76561198000000000'' ''7'' None"


text \<open>The client once the transport has opened.\<close>

definition example_open :: client where
  "example_open = run example_proto example_client [Connect, WsOpen]"


text \<open>The open client after one request with a callback \<open>f\<close>.\<close>

definition example_pending :: "(app_message \<Rightarrow> js_error + js_value) \<Rightarrow> client" where
  "example_pending f =
     run example_proto example_client
       [Connect, WsOpen, SendRequest [(''getTime'', JObject [])] (Some f)]"

section \<open>Facts about the operations\<close>

subsection \<open>The transport handle\<close>

lemma present_iff: "present x = (\<exists>y. x = Ref y)"
  by (cases x) simp_all

lemma absent_iff: "absent x = (\<not> present x)"
  by (cases x) simp_all

lemma websocket_transport_state:
  "websocket (transport_state r w) =
     (case websocket w of Ref ws \<Rightarrow> Ref (ws\<lparr>readyState := r\<rparr>) | Undefined \<Rightarrow> Undefined | Null \<Rightarrow> Null)"
  by (simp add: transport_state_def split: nullable.splits)

lemma present_transport_state: "present (websocket (transport_state r w)) = present (websocket w)"
  by (cases "websocket w") (simp_all add: transport_state_def)

lemma isConnected_value:
  "isConnected w = Inr (\<exists>ws. websocket w = Ref ws \<and> readyState ws = OPEN)"
  by (cases "websocket w") (simp_all add: isConnected_def)

lemma websocket_disconnect: "\<not> present (websocket (state_of (disconnect w)))"
  by (cases "websocket w") (simp_all add: disconnect_def)

subsection \<open>What promises and timers leave alone\<close>

lemma settle_frame:
  "seq (settle a p w) = seq w"
  "seqCallbacks (settle a p w) = seqCallbacks w"
  "AppRequest (settle a p w) = AppRequest w"
  "AppMessage (settle a p w) = AppMessage w"
  "websocket (settle a p w) = websocket w"
  "allocated (settle a p w) = allocated w"
  "trace (settle a p w) = trace w"
  by (simp_all add: settle_def split: option.splits)

lemma clearTimeout_frame:
  "seq (clearTimeout a w) = seq w"
  "seqCallbacks (clearTimeout a w) = seqCallbacks w"
  "AppRequest (clearTimeout a w) = AppRequest w"
  "AppMessage (clearTimeout a w) = AppMessage w"
  "websocket (clearTimeout a w) = websocket w"
  "allocated (clearTimeout a w) = allocated w"
  "trace (clearTimeout a w) = trace w"
  by (simp_all add: clearTimeout_def split: option.splits timer_state.splits)

lemma timer_fires_frame:
  "seq (timer_fires a w) = seq w"
  "seqCallbacks (timer_fires a w) = seqCallbacks w"
  "AppRequest (timer_fires a w) = AppRequest w"
  "AppMessage (timer_fires a w) = AppMessage w"
  "websocket (timer_fires a w) = websocket w"
  "allocated (timer_fires a w) = allocated w"
  "trace (timer_fires a w) = trace w"
  by (simp_all add: timer_fires_def reject_def settle_frame split: option.splits timer_state.splits)

subsection \<open>Calling a callback\<close>

lemma invoke_user:
  "f m = Inr v \<Longrightarrow>
   invoke k (UserCallback f) m w = Returned v (w\<lparr>trace := trace w @ [Invoke k m]\<rparr>)"
  by (simp add: invoke_def)

lemma invoke_user_throws:
  "f m = Inl e \<Longrightarrow>
   invoke k (UserCallback f) m w = Threw e (w\<lparr>trace := trace w @ [Invoke k m]\<rparr>)"
  by (simp add: invoke_def)

text \<open>The value a call of a caller's function returned is the function's own.\<close>

lemma invoke_user_value:
  "invoke k (UserCallback f) m w = Returned v w1 \<Longrightarrow> f m = Inr v"
  by (cases "f m") (simp_all add: invoke_def)

lemma invoke_async:
  "response m = Some r \<Longrightarrow>
   invoke k (AsyncCallback a) m w =
     Returned JUndefined
       (settle a (response_outcome r) (clearTimeout a (w\<lparr>trace := trace w @ [Invoke k m]\<rparr>)))"
  by (simp add: invoke_def async_callback_def Let_def reject_def resolve_def response_outcome_def
        split: option.splits)

text \<open>A call changes promises, timers and the trace, and nothing else.\<close>

lemma invoke_frame:
  "trace (called_state (invoke k cb m w)) = trace w @ [Invoke k m]"
  "seq (called_state (invoke k cb m w)) = seq w"
  "seqCallbacks (called_state (invoke k cb m w)) = seqCallbacks w"
  "AppRequest (called_state (invoke k cb m w)) = AppRequest w"
  "AppMessage (called_state (invoke k cb m w)) = AppMessage w"
  "websocket (called_state (invoke k cb m w)) = websocket w"
  "allocated (called_state (invoke k cb m w)) = allocated w"
  by (cases cb;
      simp add: invoke_def async_callback_def Let_def reject_def resolve_def settle_frame
        clearTimeout_frame split: option.splits sum.splits)+


subsection \<open>The cases of the message handler\<close>

text \<open>A matched entry: the frame is a response, its number is not 0 and has an entry.\<close>

lemma matched_Some:
  "matched w m = Some (k, cb) \<longleftrightarrow>
     (\<exists>r. response m = Some r \<and> resp_seq r = k \<and> k \<noteq> 0 \<and> seqCallbacks w k = Some cb)"
  by (auto simp: matched_def split: option.splits)

lemma matched_None:
  "matched w m = None \<longleftrightarrow>
     (\<forall>r. response m = Some r \<longrightarrow> resp_seq r = 0 \<or> seqCallbacks w (resp_seq r) = None)"
  by (auto simp: matched_def split: option.splits)

lemma on_message_unmatched:
  assumes "AppMessage w = Some mt" and "msg_fromBinary mt data = Some m" and "matched w m = None"
  shows "on_message w data = Returns (emit w (Message m))"
  using assms by (simp add: on_message_def emit_message_def)

lemma on_message_matched:
  assumes "AppMessage w = Some mt" and "msg_fromBinary mt data = Some m"
    and "matched w m = Some (k, cb)" and "invoke k cb m w = Returned res w1"
  shows "on_message w data =
           Returns (if truthy res then w1\<lparr>seqCallbacks := (seqCallbacks w1)(k := None)\<rparr>
                    else emit (w1\<lparr>seqCallbacks := (seqCallbacks w1)(k := None)\<rparr>) (Message m))"
  using assms by (simp add: on_message_def emit_message_def Let_def)

lemma on_message_threw:
  assumes "AppMessage w = Some mt" and "msg_fromBinary mt data = Some m"
    and "matched w m = Some (k, cb)" and "invoke k cb m w = Threw e w1"
  shows "on_message w data = Throws e w1"
  using assms by (simp add: on_message_def)

text \<open>
  All the handler can do to the state: nothing, emit the message, or call a matched
  callback and then stop at its exception, or delete the entry, or delete it and emit.
\<close>

lemma on_message_shape:
  "state_of (on_message w data) = w
   \<or> (\<exists>m. state_of (on_message w data) = emit w (Message m))
   \<or> (\<exists>mt m k cb. AppMessage w = Some mt \<and> msg_fromBinary mt data = Some m
         \<and> matched w m = Some (k, cb)
         \<and> (state_of (on_message w data) = called_state (invoke k cb m w)
            \<or> state_of (on_message w data) =
                (called_state (invoke k cb m w))
                  \<lparr>seqCallbacks := (seqCallbacks (called_state (invoke k cb m w)))(k := None)\<rparr>
            \<or> state_of (on_message w data) =
                emit ((called_state (invoke k cb m w))
                        \<lparr>seqCallbacks := (seqCallbacks (called_state (invoke k cb m w)))(k := None)\<rparr>)
                     (Message m)))"
proof (cases "AppMessage w")
  case None
  then show ?thesis by (simp add: on_message_def)
next
  case (Some mt)
  note mt = this
  show ?thesis
  proof (cases "msg_fromBinary mt data")
    case None
    with mt show ?thesis by (simp add: on_message_def)
  next
    case (Some m)
    note dec = this
    show ?thesis
    proof (cases "matched w m")
      case None
      then show ?thesis
        using on_message_unmatched [OF mt dec] by auto
    next
      case (Some kc)
      obtain k cb where kc: "kc = (k, cb)" by (cases kc)
      note mat = Some [unfolded kc]
      show ?thesis
      proof (cases "invoke k cb m w")
        case (Returned res w1)
        then show ?thesis
          using on_message_matched [OF mt dec mat Returned] mt dec mat
          by (cases "truthy res") auto
      next
        case (Threw e w1)
        then show ?thesis
          using on_message_threw [OF mt dec mat Threw] mt dec mat by auto
      qed
    qed
  qed
qed

lemma on_message_frame:
  "AppRequest (state_of (on_message w data)) = AppRequest w"
  "AppMessage (state_of (on_message w data)) = AppMessage w"
  "websocket (state_of (on_message w data)) = websocket w"
  "seq (state_of (on_message w data)) = seq w"
  "allocated (state_of (on_message w data)) = allocated w"
  using on_message_shape [of w data]
  by (auto simp: emit_def invoke_frame)

text \<open>The handler only ever removes an entry of the registry.\<close>

lemma on_message_registry:
  "seqCallbacks (state_of (on_message w data)) = seqCallbacks w
   \<or> (\<exists>k. seqCallbacks (state_of (on_message w data)) = (seqCallbacks w)(k := None))"
  using on_message_shape [of w data]
  by (auto simp: emit_def invoke_frame)

subsection \<open>The cases of sendRequest\<close>

lemma js_increment_pos: "js_increment n \<noteq> 0"
  by (simp add: js_increment_def)

lemma registered_frame:
  "seq (registered w cb) = js_increment (seq w)"
  "seqCallbacks (registered w cb) =
     (case cb of None \<Rightarrow> seqCallbacks w | Some c \<Rightarrow> (seqCallbacks w)(js_increment (seq w) \<mapsto> c))"
  "AppRequest (registered w cb) = AppRequest w"
  "AppMessage (registered w cb) = AppMessage w"
  "websocket (registered w cb) = websocket w"
  "asyncs (registered w cb) = asyncs w"
  "allocated (registered w cb) = allocated w"
  "trace (registered w cb) = trace w"
  "p_playerId (registered w cb) = p_playerId w"
  "p_playerToken (registered w cb) = p_playerToken w"
  by (cases cb; simp add: registered_def)+

lemma sendRequest_noop:
  "AppRequest w = None \<or> absent (websocket w) \<Longrightarrow> sendRequest w d cb = Returns w"
  by (simp add: sendRequest_def)

text \<open>
  Past the guard: the call has counted and stored the callback, whatever the codec and
  the transport then do.
\<close>

lemma sendRequest_cases:
  assumes "AppRequest w = Some rq" and "websocket w = Ref ws"
  shows "sendRequest w d cb =
           (case toBinary rq (build_request w (js_increment (seq w)) d) of
              None \<Rightarrow> Throws CodecError (registered w cb)
            | Some bs \<Rightarrow>
                (case ws_send ws bs of
                   Inl e \<Rightarrow> Throws e (registered w cb)
                 | Inr out \<Rightarrow>
                     Returns ((registered w cb)
                       \<lparr>trace := trace w @ map WsSend out @ [Emit (Request (fromBinary rq bs))]\<rparr>)))"
  using assms
  by (cases cb)
     (simp_all add: sendRequest_def registered_def Let_def emit_def build_request_def
        split: option.splits sum.splits ready_state.splits)

lemma sendRequest_sends:
  assumes "AppRequest w = Some rq" and "websocket w = Ref ws" and "readyState ws = OPEN"
    and "toBinary rq (build_request w (js_increment (seq w)) d) = Some bs"
  shows "sendRequest w d cb =
           Returns ((registered w cb)
             \<lparr>trace := trace w @ [WsSend bs, Emit (Request (fromBinary rq bs))]\<rparr>)"
  using assms(3,4) by (simp add: sendRequest_cases [OF assms(1,2)])

lemma sendRequest_connecting:
  assumes "AppRequest w = Some rq" and "websocket w = Ref ws" and "readyState ws = CONNECTING"
    and "toBinary rq (build_request w (js_increment (seq w)) d) = Some bs"
  shows "sendRequest w d cb = Throws not_open (registered w cb)"
  using assms(3,4) by (simp add: sendRequest_cases [OF assms(1,2)])

lemma sendRequest_rejected:
  assumes "AppRequest w = Some rq" and "websocket w = Ref ws"
    and "toBinary rq (build_request w (js_increment (seq w)) d) = None"
  shows "sendRequest w d cb = Throws CodecError (registered w cb)"
  using assms(3) by (simp add: sendRequest_cases [OF assms(1,2)])

lemma sendRequest_ready:
  assumes "AppRequest w = Some rq" and "websocket w = Ref ws"
  shows "seq (state_of (sendRequest w d cb)) = js_increment (seq w)"
    and "seqCallbacks (state_of (sendRequest w d cb)) =
           (case cb of None \<Rightarrow> seqCallbacks w | Some c \<Rightarrow> (seqCallbacks w)(js_increment (seq w) \<mapsto> c))"
    and "AppRequest (state_of (sendRequest w d cb)) = Some rq"
    and "websocket (state_of (sendRequest w d cb)) = Ref ws"
  using assms
  by (simp_all add: sendRequest_cases [OF assms] registered_frame split: option.splits sum.splits)

lemma sendRequest_frame:
  "AppRequest (state_of (sendRequest w d cb)) = AppRequest w"
  "AppMessage (state_of (sendRequest w d cb)) = AppMessage w"
  "websocket (state_of (sendRequest w d cb)) = websocket w"
  "asyncs (state_of (sendRequest w d cb)) = asyncs w"
  "allocated (state_of (sendRequest w d cb)) = allocated w"
proof -
  consider "AppRequest w = None \<or> absent (websocket w)"
    | rq ws where "AppRequest w = Some rq" "websocket w = Ref ws"
    by (cases "AppRequest w"; cases "websocket w") auto
  then have "AppRequest (state_of (sendRequest w d cb)) = AppRequest w
      \<and> AppMessage (state_of (sendRequest w d cb)) = AppMessage w
      \<and> websocket (state_of (sendRequest w d cb)) = websocket w
      \<and> asyncs (state_of (sendRequest w d cb)) = asyncs w
      \<and> allocated (state_of (sendRequest w d cb)) = allocated w"
  proof cases
    case 1
    then show ?thesis by (simp add: sendRequest_noop)
  next
    case 2
    then show ?thesis
      by (simp add: sendRequest_cases registered_frame split: option.splits sum.splits)
  qed
  then show "AppRequest (state_of (sendRequest w d cb)) = AppRequest w"
    "AppMessage (state_of (sendRequest w d cb)) = AppMessage w"
    "websocket (state_of (sendRequest w d cb)) = websocket w"
    "asyncs (state_of (sendRequest w d cb)) = asyncs w"
    "allocated (state_of (sendRequest w d cb)) = allocated w"
    by simp_all
qed

subsection \<open>The cases of sendRequestAsync\<close>




text \<open>
  The promise of a call is the one allocated next; the state is that of the call of
  \<^verbatim>\<open>sendRequest\<close> in the executor, with the promise rejected if that call threw.
\<close>

lemma sendRequestAsync_cases:
  "sendRequestAsync w d t =
     (allocated w,
      (case sendRequest (new_promise (case t of None \<Rightarrow> 10000 | Some ms \<Rightarrow> ms) w) d
              (Some (AsyncCallback (allocated w))) of
         Returns w2 \<Rightarrow> w2
       | Throws e w2 \<Rightarrow> reject (allocated w) (Exception e) w2))"
  by (simp add: sendRequestAsync_def Let_def split: outcome.splits)

lemma sendRequestAsync_frame:
  "AppRequest (snd (sendRequestAsync w d t)) = AppRequest w"
  "AppMessage (snd (sendRequestAsync w d t)) = AppMessage w"
  "websocket (snd (sendRequestAsync w d t)) = websocket w"
  "allocated (snd (sendRequestAsync w d t)) = allocated w + 1"
  "fst (sendRequestAsync w d t) = allocated w"
proof -
  let ?c = "sendRequest (new_promise (case t of None \<Rightarrow> 10000 | Some ms \<Rightarrow> ms) w) d
              (Some (AsyncCallback (allocated w)))"
  have f: "AppRequest (state_of ?c) = AppRequest w" "AppMessage (state_of ?c) = AppMessage w"
    "websocket (state_of ?c) = websocket w" "allocated (state_of ?c) = allocated w + 1"
    by (simp_all add: sendRequest_frame new_promise_def)
  show "AppRequest (snd (sendRequestAsync w d t)) = AppRequest w"
    "AppMessage (snd (sendRequestAsync w d t)) = AppMessage w"
    "websocket (snd (sendRequestAsync w d t)) = websocket w"
    "allocated (snd (sendRequestAsync w d t)) = allocated w + 1"
    "fst (sendRequestAsync w d t) = allocated w"
    using f by (cases ?c; simp add: sendRequestAsync_cases reject_def settle_frame)+
qed

lemma sendRequestAsync_registry:
  "seq (snd (sendRequestAsync w d t)) = seq (state_of (sendRequest w d (Some (AsyncCallback (allocated w)))))"
  "seqCallbacks (snd (sendRequestAsync w d t))
     = seqCallbacks (state_of (sendRequest w d (Some (AsyncCallback (allocated w)))))"
proof -
  let ?ms = "case t of None \<Rightarrow> 10000 | Some ms \<Rightarrow> ms"
  let ?cb = "Some (AsyncCallback (allocated w))"
  have same: "seq (state_of (sendRequest (new_promise ?ms w) d ?cb)) = seq (state_of (sendRequest w d ?cb))
      \<and> seqCallbacks (state_of (sendRequest (new_promise ?ms w) d ?cb))
          = seqCallbacks (state_of (sendRequest w d ?cb))"
  proof -
    consider "AppRequest w = None \<or> absent (websocket w)"
      | rq ws where "AppRequest w = Some rq" "websocket w = Ref ws"
      by (cases "AppRequest w"; cases "websocket w") auto
    then show ?thesis
    proof cases
      case 1
      then have "AppRequest (new_promise ?ms w) = None \<or> absent (websocket (new_promise ?ms w))"
        by (simp add: new_promise_def)
      then show ?thesis using 1 by (simp add: sendRequest_noop new_promise_def)
    next
      case 2
      have r: "AppRequest (new_promise ?ms w) = Some rq" "websocket (new_promise ?ms w) = Ref ws"
        using 2 by (simp_all add: new_promise_def)
      show ?thesis
        using sendRequest_ready(1,2) [OF 2, of d ?cb] sendRequest_ready(1,2) [OF r, of d ?cb]
        by (simp add: new_promise_def)
    qed
  qed
  show "seq (snd (sendRequestAsync w d t)) = seq (state_of (sendRequest w d ?cb))"
    "seqCallbacks (snd (sendRequestAsync w d t)) = seqCallbacks (state_of (sendRequest w d ?cb))"
    using same
    by (cases "sendRequest (new_promise ?ms w) d ?cb";
        simp add: sendRequestAsync_cases reject_def settle_frame)+
qed


subsection \<open>The handle in every step\<close>

lemma not_present_step:
  "act \<noteq> Connect \<Longrightarrow> \<not> present (websocket w) \<Longrightarrow> \<not> present (websocket (step P w act))"
  by (cases act)
     (simp_all add: websocket_disconnect sendRequest_frame sendRequestAsync_frame
        on_message_frame timer_fires_frame on_open_def on_close_def on_error_def emit_def
        present_transport_state)

lemma not_present_run:
  "Connect \<notin> set acts \<Longrightarrow> \<not> present (websocket w) \<Longrightarrow> \<not> present (websocket (run P w acts))"
proof (induction acts arbitrary: w)
  case Nil
  then show ?case by (simp add: run_def)
next
  case (Cons act acts)
  have "\<not> present (websocket (step P w act))"
    using Cons.prems by (intro not_present_step) auto
  then have "\<not> present (websocket (run P (step P w act) acts))"
    using Cons.prems by (intro Cons.IH) auto
  then show ?case by (simp add: run_def)
qed

subsection \<open>The registry in every reachable state\<close>

lemma registry_inv_sendRequest:
  assumes "registry_inv P w"
  shows "registry_inv P (state_of (sendRequest w d cb))"
proof -
  consider "AppRequest w = None \<or> absent (websocket w)"
    | rq ws where "AppRequest w = Some rq" "websocket w = Ref ws"
    by (cases "AppRequest w"; cases "websocket w") auto
  then show ?thesis
  proof cases
    case 1
    then show ?thesis using assms by (simp add: sendRequest_noop)
  next
    case 2
    then show ?thesis
      using assms sendRequest_ready [OF 2, of d cb] sendRequest_frame(2) [of w d cb]
      by (cases cb) (auto simp: registry_inv_def js_increment_pos)
  qed
qed

lemma registry_inv_on_message:
  assumes "registry_inv P w"
  shows "registry_inv P (state_of (on_message w data))"
  using assms on_message_registry [of w data] on_message_frame(1,2) [of w data]
  by (auto simp: registry_inv_def)

lemma registry_inv_connect: "registry_inv P w \<Longrightarrow> registry_inv P (state_of (connect P w))"
  by (cases "websocket w")
     (simp_all add: connect_def disconnect_def registry_inv_def Let_def emit_def)

lemma registry_inv_disconnect: "registry_inv P w \<Longrightarrow> registry_inv P (state_of (disconnect w))"
  by (cases "websocket w") (simp_all add: disconnect_def registry_inv_def)

lemma registry_inv_sendRequestAsync:
  assumes "registry_inv P w"
  shows "registry_inv P (snd (sendRequestAsync w d t))"
  using registry_inv_sendRequest [OF assms, of d "Some (AsyncCallback (allocated w))"]
  by (simp add: registry_inv_def sendRequestAsync_registry sendRequestAsync_frame sendRequest_frame)

lemma registry_inv_step:
  assumes "registry_inv P w"
  shows "registry_inv P (step P w act)"
proof (cases act)
  case Connect
  then show ?thesis using assms by (simp add: registry_inv_connect)
next
  case Disconnect
  then show ?thesis using assms by (simp add: registry_inv_disconnect)
next
  case (SendRequest d f)
  then show ?thesis using assms by (simp add: registry_inv_sendRequest)
next
  case (SendRequestAsync d t)
  then show ?thesis using assms by (simp add: registry_inv_sendRequestAsync)
next
  case WsOpen
  then show ?thesis
    using assms by (cases "websocket w")
      (simp_all add: registry_inv_def on_open_def emit_def transport_state_def)
next
  case (WsError e)
  then show ?thesis using assms by (simp add: registry_inv_def on_error_def emit_def)
next
  case (WsMessage d)
  then show ?thesis using assms by (simp add: registry_inv_on_message)
next
  case WsClose
  then show ?thesis
    using assms by (cases "websocket w")
      (simp_all add: registry_inv_def on_close_def emit_def transport_state_def)
next
  case (TimerFires a)
  then show ?thesis using assms by (simp add: registry_inv_def timer_fires_frame)
qed

lemma registry_inv_run: "registry_inv P w \<Longrightarrow> registry_inv P (run P w acts)"
proof (induction acts arbitrary: w)
  case Nil
  then show ?case by (simp add: run_def)
next
  case (Cons act acts)
  from Cons.prems have "registry_inv P (step P w act)" by (rule registry_inv_step)
  then have "registry_inv P (run P (step P w act) acts)" by (rule Cons.IH)
  then show ?case by (simp add: run_def)
qed

lemma registry_inv_constructor: "registry_inv P (constructor num srv prt pid ptok proxy)"
  by (simp add: registry_inv_def constructor_def)

subsection \<open>Objects and the request object\<close>

lemma map_of_obj_set: "map_of (obj_set k v ps) x = (if x = k then Some v else map_of ps x)"
  by (induction ps) auto

text \<open>Spreading an object over another: a property of the second wins.\<close>

lemma map_of_spread:
  "distinct (map fst data) \<Longrightarrow>
   map_of (spread base data) x = (case map_of data x of Some v \<Rightarrow> Some v | None \<Rightarrow> map_of base x)"
proof (induction data arbitrary: base)
  case Nil
  then show ?case by simp
next
  case (Cons p ps)
  obtain k v where p: "p = (k, v)" by (cases p)
  from Cons.prems p have fresh: "map_of ps k = None" and d: "distinct (map fst ps)"
    by (auto simp: map_of_eq_None_iff)
  have "map_of (spread base (p # ps)) x =
      (case map_of ps x of Some u \<Rightarrow> Some u | None \<Rightarrow> map_of (obj_set k v base) x)"
    using Cons.IH [OF d, of "obj_set k v base"] p by simp
  then show ?case
    using fresh p by (auto simp: map_of_obj_set split: option.splits)
qed


lemma obj_get_build_request:
  assumes "distinct (map fst data)"
  shows "obj_get (build_request w n data) k =
           (case obj_get data k of
              Some v \<Rightarrow> Some v
            | None \<Rightarrow> obj_get [(''seq'', JNumber (int n)), (''playerId'', p_playerId w),
                                 (''playerToken'', p_playerToken w)] k)"
  unfolding obj_get_def build_request_def
  by (rule map_of_spread [OF assms])

subsection \<open>The counter\<close>



text \<open>At \<open>2 ^ 53\<close> the counter stops, and every later call is assigned the same number.\<close>

lemma seq_saturates:
  assumes "AppRequest w = Some rq" and "websocket w = Ref ws" and "seq w \<le> 2 ^ 53"
  shows "seq (run P w (replicate n (SendRequest d f))) = min (seq w + n) (2 ^ 53)
       \<and> AppRequest (run P w (replicate n (SendRequest d f))) = Some rq
       \<and> websocket (run P w (replicate n (SendRequest d f))) = Ref ws"
  using assms
proof (induction n arbitrary: w)
  case 0
  then show ?case by (simp add: run_def)
next
  case (Suc n)
  let ?w' = "state_of (sendRequest w d (map_option UserCallback f))"
  note r = sendRequest_ready [OF Suc.prems(1,2), of d "map_option UserCallback f"]
  have le: "seq ?w' \<le> 2 ^ 53"
    using r(1) Suc.prems(3) by (simp add: js_increment_def)
  have run: "run P w (replicate (Suc n) (SendRequest d f)) = run P ?w' (replicate n (SendRequest d f))"
    by (simp add: run_def)
  have "min (seq ?w' + n) (2 ^ 53) = min (seq w + Suc n) (2 ^ 53)"
    using r(1) Suc.prems(3) by (simp add: js_increment_def)
  then show ?case
    using Suc.IH [OF r(3,4) le] run by simp
qed

lemma assigned_saturated:
  assumes "AppRequest w = Some rq" and "websocket w = Ref ws" and "seq w = 2 ^ 53"
  shows "assigned w rs = replicate (length rs) (2 ^ 53)"
  using assms
proof (induction rs arbitrary: w)
  case Nil
  then show ?case by simp
next
  case (Cons p rs)
  obtain d cb where p: "p = (d, cb)" by (cases p)
  note r = sendRequest_ready [OF Cons.prems(1,2), of d cb]
  have s': "seq (state_of (sendRequest w d cb)) = 2 ^ 53"
    using r(1) Cons.prems(3) by (simp add: js_increment_def)
  show ?case
    using Cons.IH [OF r(3,4) s'] s' p by (simp add: Let_def)
qed

subsection \<open>Promises and timers, step by step\<close>












subsection \<open>The concrete client\<close>

lemmas example_defs =
  example_pending_def example_open_def example_client_def example_proto_def example_toBinary_def
  constructor_def run_def connect_def disconnect_def sendRequest_def on_message_def
  emit_message_def matched_def invoke_def async_callback_def emit_def on_open_def on_close_def
  on_error_def transport_state_def build_request_def address_of_def byte_of_def obj_get_def
  js_increment_def Let_def


lemma example_opened:
  "AppRequest example_open = Some (Proto_AppRequest example_proto)"
  "AppMessage example_open = Some (Proto_AppMessage example_proto)"
  "websocket example_open = Ref \<lparr>url = ''ws://localhost:28082'', readyState = OPEN\<rparr>"
  "seq example_open = 0"
  "seqCallbacks example_open = Map.empty"
  "trace example_open = [Emit Connecting, WsNew ''ws://localhost:28082'', Emit Connected]"
  "p_playerToken example_open = JNumber 7"
  "p_playerId example_open = JString ''76561198000000000''"
  by (simp_all add: example_defs)

lemma example_pending_state:
  "seqCallbacks (example_pending f) = [1 \<mapsto> UserCallback f]"
  "AppMessage (example_pending f) = Some (Proto_AppMessage example_proto)"
  "seq (example_pending f) = 1"
  "websocket (example_pending f) = Ref \<lparr>url = ''ws://localhost:28082'', readyState = OPEN\<rparr>"
  "trace (example_pending f) =
     [Emit Connecting, WsNew ''ws://localhost:28082'', Emit Connected,
      WsSend [1, 7], Emit (Request [(''seq'', JNumber 1)])]"
  by (simp_all add: example_defs)


lemma example_decodes:
  "msg_fromBinary (Proto_AppMessage example_proto) [b] = Some (response_message (unat b) None)"
  "msg_fromBinary (Proto_AppMessage example_proto) [b, c]
     = Some (response_message (unat b) (Some (AppError ''not_found'')))"
  "response (response_message k e) = Some \<lparr>resp_seq = k, resp_error = e, resp_body = []\<rparr>"
  by (simp_all add: example_proto_def response_message_def)

subsection \<open>Callbacks that return, and the promise after the call\<close>

lemma invoke_returned:
  assumes "callback_returns cb m v"
  shows "invoke k cb m w = Returned v (called_state (invoke k cb m w))"
proof (cases cb)
  case (UserCallback f)
  then show ?thesis using assms by (simp add: callback_returns_def invoke_user)
next
  case (AsyncCallback a)
  then show ?thesis
    using assms by (auto simp: callback_returns_def invoke_async split: option.splits)
qed



section \<open>Connection lifecycle\<close>

text \<open>
  C8. In every state \<^verbatim>\<open>isConnected()\<close> returns, without throwing, whether a transport
  handle exists whose state is open. It is false in every state reached from a new client
  without a call of \<^verbatim>\<open>connect()\<close>, false after the handle's close signal and false
  after \<^verbatim>\<open>disconnect()\<close>.
\<close>

theorem isConnected_handle_open:
  assumes "Connect \<notin> set acts"
  shows "isConnected w = Inr (\<exists>ws. websocket w = Ref ws \<and> readyState ws = OPEN)
       \<and> isConnected (run P (constructor num srv prt pid ptok proxy) acts) = Inr False
       \<and> isConnected (step P w WsClose) = Inr False
       \<and> isConnected (step P w Disconnect) = Inr False"
proof -
  have a: "isConnected (run P (constructor num srv prt pid ptok proxy) acts) = Inr False"
    using not_present_run [OF assms, of "constructor num srv prt pid ptok proxy" P]
    by (simp add: isConnected_def constructor_def)
  have b: "isConnected (step P w WsClose) = Inr False"
    by (cases "websocket w")
       (simp_all add: isConnected_value on_close_def emit_def transport_state_def)
  have c: "isConnected (step P w Disconnect) = Inr False"
    using websocket_disconnect [of w] by (simp add: isConnected_def)
  show ?thesis using a b c isConnected_value by blast
qed

theorem isConnected_handle_open_witness:
  "Connect \<notin> set [WsOpen, SendRequest [] None, Disconnect]
   \<and> isConnected (step example_proto (step example_proto example_client Connect) WsOpen) = Inr True
   \<and> isConnected (run example_proto example_client [WsOpen, SendRequest [] None, Disconnect])
       = Inr False
   \<and> isConnected (step example_proto
         (step example_proto (step example_proto example_client Connect) WsOpen) WsClose) = Inr False
   \<and> isConnected (step example_proto
         (step example_proto (step example_proto example_client Connect) WsOpen) Disconnect) = Inr False"
proof -
  have h: "Connect \<notin> set [WsOpen, SendRequest [] None, Disconnect]" by simp
  have o: "isConnected (step example_proto (step example_proto example_client Connect) WsOpen) = Inr True"
    by (simp add: isConnected_def example_defs)
  show ?thesis
    using h o
      isConnected_handle_open [OF h,
        of "step example_proto (step example_proto example_client Connect) WsOpen" example_proto
           "\<lambda>s. JNumber 7" "''localhost''" "''28082''" "''76561198000000000''" "''7''" None]
    by (simp add: example_client_def)
qed

text \<open>
  C9. \<^verbatim>\<open>disconnect()\<close> never throws. With a handle it terminates the handle and sets
  the field to null; without one it changes nothing. A second call changes nothing, and
  a call on a client that never connected changes nothing.
\<close>

theorem disconnect_idempotent:
  "returns (disconnect w)
   \<and> disconnect w =
       Returns (if present (websocket w)
                then w\<lparr>trace := trace w @ [WsTerminate], websocket := Null\<rparr> else w)
   \<and> disconnect (state_of (disconnect w)) = Returns (state_of (disconnect w))
   \<and> disconnect (constructor num srv prt pid ptok proxy)
       = Returns (constructor num srv prt pid ptok proxy)"
  by (cases "websocket w") (simp_all add: disconnect_def constructor_def)

theorem disconnect_idempotent_witness:
  "websocket (example_pending (\<lambda>m. Inr (JBool True)))
     = Ref \<lparr>url = ''ws://localhost:28082'', readyState = OPEN\<rparr>
   \<and> trace (state_of (disconnect (example_pending (\<lambda>m. Inr (JBool True)))))
       = trace (example_pending (\<lambda>m. Inr (JBool True))) @ [WsTerminate]
   \<and> websocket (state_of (disconnect (example_pending (\<lambda>m. Inr (JBool True))))) = Null
   \<and> disconnect (state_of (disconnect (example_pending (\<lambda>m. Inr (JBool True)))))
       = Returns (state_of (disconnect (example_pending (\<lambda>m. Inr (JBool True)))))
   \<and> disconnect example_client = Returns example_client"
proof -
  let ?w = "example_pending (\<lambda>m. Inr (JBool True))"
  have ws: "websocket ?w = Ref \<lparr>url = ''ws://localhost:28082'', readyState = OPEN\<rparr>"
    by (rule example_pending_state)
  note t = disconnect_idempotent [of ?w "\<lambda>s. JNumber 7"
      "''localhost''" "''28082''" "''76561198000000000''" "''7''" None]
  have a: "state_of (disconnect ?w) = ?w\<lparr>trace := trace ?w @ [WsTerminate], websocket := Null\<rparr>"
    using t ws by simp
  have b: "disconnect (state_of (disconnect ?w)) = Returns (state_of (disconnect ?w))"
    using t by blast
  have c: "disconnect example_client = Returns example_client"
    using t by (simp add: example_client_def)
  have d: "trace (state_of (disconnect ?w)) = trace ?w @ [WsTerminate]"
    "websocket (state_of (disconnect ?w)) = Null"
    by (simp_all add: a)
  show ?thesis
    using ws b c d by blast
qed

section \<open>Routing of responses\<close>

text \<open>
  C4. For a frame matched with a registry entry whose callback returns a value \<open>v\<close>, the
  value decides: if it is truthy, the handler's only effect on the trace is the call of
  the callback; if it is falsy, the call is followed by a \<^verbatim>\<open>message\<close> event that carries
  the decoded message the callback was called with.
\<close>

theorem suppress_or_message:
  assumes "AppMessage w = Some mt"
    and "msg_fromBinary mt data = Some m"
    and "matched w m = Some (k, cb)"
    and "callback_returns cb m v"
  shows "trace (state_of (on_message w data)) =
           (if truthy v then trace w @ [Invoke k m]
            else trace w @ [Invoke k m, Emit (Message m)])"
  using on_message_matched [OF assms(1-3) invoke_returned [OF assms(4)]]
  by (simp add: emit_def invoke_frame)

theorem suppress_or_message_witness:
  "AppMessage (example_pending (\<lambda>m. Inr (JBool True))) = Some (Proto_AppMessage example_proto)
   \<and> AppMessage (example_pending (\<lambda>m. Inr (JBool False))) = Some (Proto_AppMessage example_proto)
   \<and> msg_fromBinary (Proto_AppMessage example_proto) [1] = Some (response_message 1 None)
   \<and> matched (example_pending (\<lambda>m. Inr (JBool True))) (response_message 1 None)
       = Some (1, UserCallback (\<lambda>m. Inr (JBool True)))
   \<and> matched (example_pending (\<lambda>m. Inr (JBool False))) (response_message 1 None)
       = Some (1, UserCallback (\<lambda>m. Inr (JBool False)))
   \<and> callback_returns (UserCallback (\<lambda>m. Inr (JBool True))) (response_message 1 None) (JBool True)
   \<and> callback_returns (UserCallback (\<lambda>m. Inr (JBool False))) (response_message 1 None) (JBool False)
   \<and> trace (state_of (on_message (example_pending (\<lambda>m. Inr (JBool True))) [1])) =
       trace (example_pending (\<lambda>m. Inr (JBool True))) @ [Invoke 1 (response_message 1 None)]
   \<and> trace (state_of (on_message (example_pending (\<lambda>m. Inr (JBool False))) [1])) =
       trace (example_pending (\<lambda>m. Inr (JBool False))) @
         [Invoke 1 (response_message 1 None), Emit (Message (response_message 1 None))]"
proof -
  have mt: "AppMessage (example_pending f) = Some (Proto_AppMessage example_proto)" for f
    by (simp add: example_pending_state)
  have dec: "msg_fromBinary (Proto_AppMessage example_proto) [1] = Some (response_message 1 None)"
    using example_decodes(1) [of 1] by simp
  have mat: "matched (example_pending f) (response_message 1 None) = Some (1, UserCallback f)" for f
    by (simp add: matched_def response_message_def example_pending_state)
  have ret: "callback_returns (UserCallback (\<lambda>m. Inr b)) (response_message 1 None) b" for b
    by (simp add: callback_returns_def)
  show ?thesis
    using mt dec mat ret
      suppress_or_message [OF mt dec mat ret, of "JBool True"]
      suppress_or_message [OF mt dec mat ret, of "JBool False"]
    by simp
qed

text \<open>
  C10. When the callback of a matched frame returns a promise, whatever the promise
  resolves to, the handler calls the callback, removes the entry and emits no
  \<^verbatim>\<open>message\<close> event: a promise is truthy.
\<close>

theorem promise_result_suppresses:
  assumes "AppMessage w = Some mt"
    and "msg_fromBinary mt data = Some m"
    and "matched w m = Some (k, UserCallback f)"
    and "f m = Inr (JPromise v)"
  shows "on_message w data =
           Returns (w\<lparr>trace := trace w @ [Invoke k m],
                      seqCallbacks := (seqCallbacks w)(k := None)\<rparr>)"
  using on_message_matched [OF assms(1-3) invoke_user [of f m "JPromise v" k w, OF assms(4)]]
  by simp

theorem promise_result_suppresses_witness:
  "AppMessage (example_pending (\<lambda>m. Inr (JPromise JUndefined))) = Some (Proto_AppMessage example_proto)
   \<and> msg_fromBinary (Proto_AppMessage example_proto) [1] = Some (response_message 1 None)
   \<and> matched (example_pending (\<lambda>m. Inr (JPromise JUndefined))) (response_message 1 None)
       = Some (1, UserCallback (\<lambda>m. Inr (JPromise JUndefined)))
   \<and> trace (state_of (on_message (example_pending (\<lambda>m. Inr (JPromise JUndefined))) [1])) =
       trace (example_pending (\<lambda>m. Inr (JPromise JUndefined))) @ [Invoke 1 (response_message 1 None)]
   \<and> seqCallbacks (state_of (on_message (example_pending (\<lambda>m. Inr (JPromise JUndefined))) [1])) 1 = None"
proof -
  let ?w = "example_pending (\<lambda>m. Inr (JPromise JUndefined))"
  have mt: "AppMessage ?w = Some (Proto_AppMessage example_proto)"
    by (simp add: example_pending_state)
  have dec: "msg_fromBinary (Proto_AppMessage example_proto) [1] = Some (response_message 1 None)"
    using example_decodes(1) [of 1] by simp
  have mat: "matched ?w (response_message 1 None) = Some (1, UserCallback (\<lambda>m. Inr (JPromise JUndefined)))"
    by (simp add: matched_def response_message_def example_pending_state)
  have res: "(\<lambda>m. Inr (JPromise JUndefined) :: js_error + js_value) (response_message 1 None)
      = Inr (JPromise JUndefined)"
    by simp
  show ?thesis
    using mt dec mat promise_result_suppresses [OF mt dec mat res]
    by simp
qed

text \<open>
  C7. A response frame with sequence number 0 is matched with no registry entry, whatever
  the registry holds: the handler calls no callback, leaves the registry as it is and
  only emits the \<^verbatim>\<open>message\<close> event.
\<close>

theorem zero_sequence_unmatched:
  assumes "AppMessage w = Some mt"
    and "msg_fromBinary mt data = Some m"
    and "response m = Some r"
    and "resp_seq r = 0"
  shows "matched w m = None \<and> on_message w data = Returns (emit w (Message m))"
proof -
  have "matched w m = None" using assms(3,4) by (simp add: matched_def)
  then show ?thesis using on_message_unmatched [OF assms(1,2)] by simp
qed

theorem zero_sequence_unmatched_witness:
  "AppMessage ((example_pending (\<lambda>m. Inr (JBool True)))
       \<lparr>seqCallbacks := [0 \<mapsto> UserCallback (\<lambda>m. Inr (JBool True))]\<rparr>)
     = Some (Proto_AppMessage example_proto)
   \<and> msg_fromBinary (Proto_AppMessage example_proto) [0] = Some (response_message 0 None)
   \<and> response (response_message 0 None) = Some \<lparr>resp_seq = 0, resp_error = None, resp_body = []\<rparr>
   \<and> resp_seq \<lparr>resp_seq = 0, resp_error = None, resp_body = []\<rparr> = 0
   \<and> trace (state_of (on_message ((example_pending (\<lambda>m. Inr (JBool True)))
         \<lparr>seqCallbacks := [0 \<mapsto> UserCallback (\<lambda>m. Inr (JBool True))]\<rparr>) [0])) =
       trace (example_pending (\<lambda>m. Inr (JBool True))) @ [Emit (Message (response_message 0 None))]
   \<and> seqCallbacks (state_of (on_message ((example_pending (\<lambda>m. Inr (JBool True)))
         \<lparr>seqCallbacks := [0 \<mapsto> UserCallback (\<lambda>m. Inr (JBool True))]\<rparr>) [0])) 0 =
       Some (UserCallback (\<lambda>m. Inr (JBool True)))"
proof -
  let ?w = "(example_pending (\<lambda>m. Inr (JBool True)))
      \<lparr>seqCallbacks := [0 \<mapsto> UserCallback (\<lambda>m. Inr (JBool True))]\<rparr>"
  let ?r = "\<lparr>resp_seq = 0, resp_error = None, resp_body = []\<rparr>"
  have mt: "AppMessage ?w = Some (Proto_AppMessage example_proto)"
    by (simp add: example_pending_state)
  have dec: "msg_fromBinary (Proto_AppMessage example_proto) [0] = Some (response_message 0 None)"
    using example_decodes(1) [of 0] by simp
  have r: "response (response_message 0 None) = Some ?r"
    by (simp add: response_message_def)
  have z: "resp_seq ?r = 0" by simp
  show ?thesis
    using mt dec r z zero_sequence_unmatched [OF mt dec r z]
    by (simp add: emit_def)
qed

text \<open>
  C2, as the code has it. In every state a new client reaches, take a frame that decodes
  to a response whose sequence number has an entry in the registry. If the entry's
  callback returns, the handler returns too: the callback was called once with the
  decoded message, the entry is removed, and the same frame arriving again finds no
  entry, calls nothing and is emitted as a \<^verbatim>\<open>message\<close> event. If the callback throws,
  the handler stops with that exception after the one call: nothing is removed and
  nothing is emitted.
\<close>

theorem matched_response_once:
  assumes w: "w = run P (constructor num srv prt pid ptok proxy) acts"
    and dec: "msg_fromBinary (Proto_AppMessage P) data = Some m"
    and r: "response m = Some r"
    and entry: "seqCallbacks w (resp_seq r) = Some cb"
  shows "(callback_returns cb m v \<longrightarrow>
            returns (on_message w data)
          \<and> trace (state_of (on_message w data)) =
              trace w @ Invoke (resp_seq r) m # (if truthy v then [] else [Emit (Message m)])
          \<and> seqCallbacks (state_of (on_message w data)) = (seqCallbacks w)(resp_seq r := None)
          \<and> on_message (state_of (on_message w data)) data =
              Returns (emit (state_of (on_message w data)) (Message m)))
       \<and> (cb = UserCallback f \<and> f m = Inl e \<longrightarrow>
            on_message w data = Throws e (w\<lparr>trace := trace w @ [Invoke (resp_seq r) m]\<rparr>))"
proof -
  have inv: "registry_inv P w"
    unfolding w by (intro registry_inv_run registry_inv_constructor)
  from inv entry have mt: "AppMessage w = Some (Proto_AppMessage P)"
    by (auto simp: registry_inv_def)
  have nz: "resp_seq r \<noteq> 0"
  proof
    assume "resp_seq r = 0"
    with inv entry show False by (simp add: registry_inv_def)
  qed
  have mat: "matched w m = Some (resp_seq r, cb)"
    using r nz entry by (simp add: matched_Some)
  have returning: "returns (on_message w data)
      \<and> trace (state_of (on_message w data)) =
          trace w @ Invoke (resp_seq r) m # (if truthy v then [] else [Emit (Message m)])
      \<and> seqCallbacks (state_of (on_message w data)) = (seqCallbacks w)(resp_seq r := None)
      \<and> on_message (state_of (on_message w data)) data =
          Returns (emit (state_of (on_message w data)) (Message m))"
    if ret: "callback_returns cb m v"
  proof -
    let ?w1 = "called_state (invoke (resp_seq r) cb m w)"
    have call: "invoke (resp_seq r) cb m w = Returned v ?w1"
      by (rule invoke_returned [OF ret])
    let ?w2 = "?w1\<lparr>seqCallbacks := (seqCallbacks ?w1)(resp_seq r := None)\<rparr>"
    let ?w' = "if truthy v then ?w2 else emit ?w2 (Message m)"
    have first: "on_message w data = Returns ?w'"
      by (rule on_message_matched [OF mt dec mat call])
    have mt': "AppMessage ?w' = Some (Proto_AppMessage P)"
      using mt by (simp add: emit_def invoke_frame)
    have gone: "matched ?w' m = None"
      using r by (simp add: matched_None emit_def)
    have second: "on_message ?w' data = Returns (emit ?w' (Message m))"
      by (rule on_message_unmatched [OF mt' dec gone])
    show ?thesis
      using first second by (simp add: emit_def invoke_frame)
  qed
  have throwing: "on_message w data = Throws e (w\<lparr>trace := trace w @ [Invoke (resp_seq r) m]\<rparr>)"
    if "cb = UserCallback f" and "f m = Inl e"
    using on_message_threw [OF mt dec mat] invoke_user_throws [of f m e "resp_seq r" w] that
    by simp
  show ?thesis using returning throwing by blast
qed

theorem matched_response_once_witness:
  "example_pending (\<lambda>m. Inr JUndefined) =
     run example_proto (constructor (\<lambda>s. JNumber 7) ''localhost'' ''28082'' ''76561198000000000'' ''7'' None)
       [Connect, WsOpen, SendRequest [(''getTime'', JObject [])] (Some (\<lambda>m. Inr JUndefined))]
   \<and> msg_fromBinary (Proto_AppMessage example_proto) [1] = Some (response_message 1 None)
   \<and> response (response_message 1 None) = Some \<lparr>resp_seq = 1, resp_error = None, resp_body = []\<rparr>
   \<and> seqCallbacks (example_pending (\<lambda>m. Inr JUndefined)) 1 = Some (UserCallback (\<lambda>m. Inr JUndefined))
   \<and> callback_returns (UserCallback (\<lambda>m. Inr JUndefined)) (response_message 1 None) JUndefined
   \<and> returns (on_message (example_pending (\<lambda>m. Inr JUndefined)) [1])
   \<and> trace (state_of (on_message (example_pending (\<lambda>m. Inr JUndefined)) [1])) =
       trace (example_pending (\<lambda>m. Inr JUndefined)) @
         [Invoke 1 (response_message 1 None), Emit (Message (response_message 1 None))]
   \<and> seqCallbacks (state_of (on_message (example_pending (\<lambda>m. Inr JUndefined)) [1])) 1 = None
   \<and> trace (state_of (on_message (state_of (on_message (example_pending (\<lambda>m. Inr JUndefined)) [1])) [1])) =
       trace (example_pending (\<lambda>m. Inr JUndefined)) @
         [Invoke 1 (response_message 1 None), Emit (Message (response_message 1 None)),
          Emit (Message (response_message 1 None))]
   \<and> seqCallbacks (example_pending (\<lambda>m. Inl TypeError)) 1 = Some (UserCallback (\<lambda>m. Inl TypeError))
   \<and> on_message (example_pending (\<lambda>m. Inl TypeError)) [1] =
       Throws TypeError ((example_pending (\<lambda>m. Inl TypeError))
         \<lparr>trace := trace (example_pending (\<lambda>m. Inl TypeError)) @ [Invoke 1 (response_message 1 None)]\<rparr>)"
proof -
  let ?r = "\<lparr>resp_seq = 1, resp_error = None, resp_body = []\<rparr>"
  have h1: "example_pending f = run example_proto
      (constructor (\<lambda>s. JNumber 7) ''localhost'' ''28082'' ''76561198000000000'' ''7'' None)
      [Connect, WsOpen, SendRequest [(''getTime'', JObject [])] (Some f)]" for f
    by (simp add: example_pending_def example_client_def)
  have h2: "msg_fromBinary (Proto_AppMessage example_proto) [1] = Some (response_message 1 None)"
    using example_decodes(1) [of 1] by simp
  have h3: "response (response_message 1 None) = Some ?r"
    by (simp add: response_message_def)
  have h4: "seqCallbacks (example_pending f) (resp_seq ?r) = Some (UserCallback f)" for f
    by (simp add: example_pending_state)
  have ret: "callback_returns (UserCallback (\<lambda>m. Inr JUndefined)) (response_message 1 None) JUndefined"
    by (simp add: callback_returns_def)
  note t1 = matched_response_once [OF h1 h2 h3 h4, of "\<lambda>m. Inr JUndefined" JUndefined
      "\<lambda>m. Inl TypeError" TypeError]
  note t2 = matched_response_once [OF h1 h2 h3 h4, of "\<lambda>m. Inl TypeError" JUndefined
      "\<lambda>m. Inl TypeError" TypeError]
  have a: "returns (on_message (example_pending (\<lambda>m. Inr JUndefined)) [1])
      \<and> trace (state_of (on_message (example_pending (\<lambda>m. Inr JUndefined)) [1])) =
          trace (example_pending (\<lambda>m. Inr JUndefined)) @
            [Invoke 1 (response_message 1 None), Emit (Message (response_message 1 None))]
      \<and> seqCallbacks (state_of (on_message (example_pending (\<lambda>m. Inr JUndefined)) [1])) 1 = None
      \<and> trace (state_of (on_message (state_of (on_message (example_pending (\<lambda>m. Inr JUndefined)) [1])) [1])) =
          trace (example_pending (\<lambda>m. Inr JUndefined)) @
            [Invoke 1 (response_message 1 None), Emit (Message (response_message 1 None)),
             Emit (Message (response_message 1 None))]"
    using t1 ret by (simp add: emit_def)
  have b: "on_message (example_pending (\<lambda>m. Inl TypeError)) [1] =
       Throws TypeError ((example_pending (\<lambda>m. Inl TypeError))
         \<lparr>trace := trace (example_pending (\<lambda>m. Inl TypeError)) @ [Invoke 1 (response_message 1 None)]\<rparr>)"
    using t2 by simp
  show ?thesis
    using h1 [of "\<lambda>m. Inr JUndefined"] h2 h3 h4 [of "\<lambda>m. Inr JUndefined"] h4 [of "\<lambda>m. Inl TypeError"]
      ret a b
    by simp
qed

text \<open>
  C2, as stated, fails for a callback that throws: its entry stays in the registry, and
  the same frame arriving again calls it a second time and still emits no
  \<^verbatim>\<open>message\<close> event.
\<close>

theorem throwing_callback_stays:
  "seqCallbacks (example_pending (\<lambda>m. Inl (Error ''unexpected''))) 1
     = Some (UserCallback (\<lambda>m. Inl (Error ''unexpected'')))
   \<and> msg_fromBinary (Proto_AppMessage example_proto) [1] = Some (response_message 1 None)
   \<and> \<not> returns (on_message (example_pending (\<lambda>m. Inl (Error ''unexpected''))) [1])
   \<and> seqCallbacks (state_of (on_message (example_pending (\<lambda>m. Inl (Error ''unexpected''))) [1])) 1
       = Some (UserCallback (\<lambda>m. Inl (Error ''unexpected'')))
   \<and> trace (state_of (on_message
         (state_of (on_message (example_pending (\<lambda>m. Inl (Error ''unexpected''))) [1])) [1])) =
       trace (example_pending (\<lambda>m. Inl (Error ''unexpected''))) @
         [Invoke 1 (response_message 1 None), Invoke 1 (response_message 1 None)]"
proof -
  let ?f = "\<lambda>m::app_message. Inl (Error ''unexpected'') :: js_error + js_value"
  let ?w = "example_pending ?f"
  let ?m = "response_message 1 None"
  have mt: "AppMessage ?w = Some (Proto_AppMessage example_proto)"
    by (simp add: example_pending_state)
  have dec: "msg_fromBinary (Proto_AppMessage example_proto) [1] = Some ?m"
    using example_decodes(1) [of 1] by simp
  have reg: "seqCallbacks ?w 1 = Some (UserCallback ?f)"
    by (simp add: example_pending_state)
  have mat: "matched ?w ?m = Some (1, UserCallback ?f)"
    by (simp add: matched_def response_message_def example_pending_state)
  let ?w1 = "?w\<lparr>trace := trace ?w @ [Invoke 1 ?m]\<rparr>"
  have first: "on_message ?w [1] = Throws (Error ''unexpected'') ?w1"
    using on_message_threw [OF mt dec mat invoke_user_throws [of ?f ?m "Error ''unexpected''" 1 ?w]]
    by simp
  have mt1: "AppMessage ?w1 = Some (Proto_AppMessage example_proto)"
    using mt by simp
  have mat1: "matched ?w1 ?m = Some (1, UserCallback ?f)"
    by (simp add: matched_def response_message_def example_pending_state)
  have second: "on_message ?w1 [1] = Throws (Error ''unexpected'') (?w1\<lparr>trace := trace ?w1 @ [Invoke 1 ?m]\<rparr>)"
    using on_message_threw [OF mt1 dec mat1 invoke_user_throws [of ?f ?m "Error ''unexpected''" 1 ?w1]]
    by simp
  have st: "state_of (on_message ?w [1]) = ?w1"
    by (simp only: first state_of.simps)
  have c3: "\<not> returns (on_message ?w [1])"
    by (simp only: first returns.simps) simp
  have c4: "seqCallbacks (state_of (on_message ?w [1])) 1 = Some (UserCallback ?f)"
    unfolding st using reg by simp
  have c5: "trace (state_of (on_message (state_of (on_message ?w [1])) [1])) =
      trace ?w @ [Invoke 1 ?m, Invoke 1 ?m]"
    unfolding st by (simp only: second state_of.simps) simp
  from reg dec c3 c4 c5 show ?thesis by blast
qed

section \<open>Dispatch of requests\<close>

text \<open>
  C6. Without a loaded codec or without a transport handle \<^verbatim>\<open>sendRequest\<close> returns
  and leaves the whole state as it was: the counter, the registry and the trace of sent
  frames, events and calls. In particular this is so after \<^verbatim>\<open>disconnect()\<close>.
\<close>

theorem sendRequest_unready_noop:
  assumes "AppRequest w = None \<or> absent (websocket w)"
  shows "sendRequest w data cb = Returns w
       \<and> sendRequest (state_of (disconnect w)) data cb = Returns (state_of (disconnect w))"
proof -
  have "absent (websocket (state_of (disconnect w)))"
    using websocket_disconnect [of w] by (simp add: absent_iff)
  then show ?thesis using assms by (simp add: sendRequest_noop)
qed

theorem sendRequest_unready_noop_witness:
  "(AppRequest example_client = None \<or> absent (websocket example_client))
   \<and> sendRequest example_client [(''getTime'', JObject [])]
         (Some (UserCallback (\<lambda>m. Inr (JBool True))))
       = Returns example_client
   \<and> absent (websocket (state_of (disconnect (example_pending (\<lambda>m. Inr (JBool True))))))
   \<and> AppRequest (state_of (disconnect (example_pending (\<lambda>m. Inr (JBool True)))))
       = Some (Proto_AppRequest example_proto)
   \<and> sendRequest (state_of (disconnect (example_pending (\<lambda>m. Inr (JBool True)))))
         [(''getTime'', JObject [])] (Some (UserCallback (\<lambda>m. Inr (JBool True))))
       = Returns (state_of (disconnect (example_pending (\<lambda>m. Inr (JBool True)))))"
proof -
  let ?v = "state_of (disconnect (example_pending (\<lambda>m. Inr (JBool True))))"
  have h: "AppRequest example_client = None \<or> absent (websocket example_client)"
    by (simp add: example_client_def constructor_def)
  have a: "absent (websocket ?v)"
    using websocket_disconnect [of "example_pending (\<lambda>m. Inr (JBool True))"] by (simp add: absent_iff)
  then have h': "AppRequest ?v = None \<or> absent (websocket ?v)" by simp
  have rq: "AppRequest ?v = Some (Proto_AppRequest example_proto)"
    by (simp add: example_defs)
  show ?thesis
    using h a rq
      sendRequest_unready_noop [OF h, of "[(''getTime'', JObject [])]"
        "Some (UserCallback (\<lambda>m. Inr (JBool True)))"]
      sendRequest_unready_noop [OF h', of "[(''getTime'', JObject [])]"
        "Some (UserCallback (\<lambda>m. Inr (JBool True)))"]
    by simp
qed

text \<open>
  C3, as the code has it. \<^verbatim>\<open>sendRequest\<close> on a client with a codec and an open handle
  builds the request object from the dispatcher's \<^verbatim>\<open>seq\<close>, \<^verbatim>\<open>playerId\<close> and
  \<^verbatim>\<open>playerToken\<close> with the caller's payload spread over it, and, when the codec takes
  the object, sends its encoding: each of the three fields carries the caller's value
  when the payload has that field, and the dispatcher's value only when it has not.
  (An object has each of its properties once.)
\<close>

theorem caller_fields_override:
  assumes "AppRequest w = Some rq" and "websocket w = Ref ws" and "readyState ws = OPEN"
    and "distinct (map fst data)"
    and "ob = build_request w (js_increment (seq w)) data"
    and "toBinary rq ob = Some bs"
  shows "trace (state_of (sendRequest w data cb)) =
           trace w @ [WsSend bs, Emit (Request (fromBinary rq bs))]
       \<and> obj_get ob ''seq'' =
           (case obj_get data ''seq'' of
              Some v \<Rightarrow> Some v | None \<Rightarrow> Some (JNumber (int (js_increment (seq w)))))
       \<and> obj_get ob ''playerId'' =
           (case obj_get data ''playerId'' of Some v \<Rightarrow> Some v | None \<Rightarrow> Some (p_playerId w))
       \<and> obj_get ob ''playerToken'' =
           (case obj_get data ''playerToken'' of Some v \<Rightarrow> Some v | None \<Rightarrow> Some (p_playerToken w))"
proof -
  have tr: "trace (state_of (sendRequest w data cb)) =
      trace w @ [WsSend bs, Emit (Request (fromBinary rq bs))]"
    using sendRequest_sends [OF assms(1-3), of data bs cb] assms(5,6) by simp
  have fields: "obj_get ob k =
      (case obj_get data k of
         Some v \<Rightarrow> Some v
       | None \<Rightarrow> obj_get [(''seq'', JNumber (int (js_increment (seq w)))),
                            (''playerId'', p_playerId w), (''playerToken'', p_playerToken w)] k)" for k
    unfolding assms(5) by (rule obj_get_build_request [OF assms(4)])
  have base: "obj_get [(''seq'', JNumber (int (js_increment (seq w)))),
                       (''playerId'', p_playerId w), (''playerToken'', p_playerToken w)] ''seq''
                = Some (JNumber (int (js_increment (seq w))))"
    "obj_get [(''seq'', JNumber (int (js_increment (seq w)))),
              (''playerId'', p_playerId w), (''playerToken'', p_playerToken w)] ''playerId''
       = Some (p_playerId w)"
    "obj_get [(''seq'', JNumber (int (js_increment (seq w)))),
              (''playerId'', p_playerId w), (''playerToken'', p_playerToken w)] ''playerToken''
       = Some (p_playerToken w)"
    by (simp_all add: obj_get_def)
  show ?thesis
    using tr fields [of "''seq''"] fields [of "''playerId''"] fields [of "''playerToken''"]
    by (simp only: base)
qed

text \<open>
  C3, as stated, fails: a payload with \<^verbatim>\<open>seq: 99\<close> and \<^verbatim>\<open>playerToken: 5\<close> sent by an
  open client whose counter assigns 1 and whose token is 7 goes on the wire with 99 and 5.
\<close>

theorem dispatcher_fields_overridden:
  "seq (state_of (sendRequest example_open
          [(''seq'', JNumber 99), (''playerToken'', JNumber 5)] None)) = 1
   \<and> p_playerToken example_open = JNumber 7
   \<and> obj_get (build_request example_open 1
          [(''seq'', JNumber 99), (''playerToken'', JNumber 5)]) ''seq'' = Some (JNumber 99)
   \<and> obj_get (build_request example_open 1
          [(''seq'', JNumber 99), (''playerToken'', JNumber 5)]) ''seq''
       \<noteq> Some (JNumber (int (seq (state_of (sendRequest example_open
                   [(''seq'', JNumber 99), (''playerToken'', JNumber 5)] None)))))
   \<and> obj_get (build_request example_open 1
          [(''seq'', JNumber 99), (''playerToken'', JNumber 5)]) ''playerToken'' = Some (JNumber 5)
   \<and> obj_get (build_request example_open 1
          [(''seq'', JNumber 99), (''playerToken'', JNumber 5)]) ''playerToken''
       \<noteq> Some (p_playerToken example_open)
   \<and> trace (state_of (sendRequest example_open
          [(''seq'', JNumber 99), (''playerToken'', JNumber 5)] None)) =
       [Emit Connecting, WsNew ''ws://localhost:28082'', Emit Connected, WsSend [99, 5],
        Emit (Request [(''seq'', JNumber 99)])]"
  by (simp add: example_defs)

theorem caller_fields_override_witness:
  "AppRequest example_open = Some (Proto_AppRequest example_proto)
   \<and> websocket example_open = Ref \<lparr>url = ''ws://localhost:28082'', readyState = OPEN\<rparr>
   \<and> readyState \<lparr>url = ''ws://localhost:28082'', readyState = OPEN\<rparr> = OPEN
   \<and> distinct (map fst [(''getTime'', JObject []), (''playerToken'', JNumber 5)])
   \<and> toBinary (Proto_AppRequest example_proto)
        (build_request example_open 1 [(''getTime'', JObject []), (''playerToken'', JNumber 5)])
       = Some [1, 5]
   \<and> obj_get (build_request example_open 1
          [(''getTime'', JObject []), (''playerToken'', JNumber 5)]) ''seq'' = Some (JNumber 1)
   \<and> obj_get (build_request example_open 1
          [(''getTime'', JObject []), (''playerToken'', JNumber 5)]) ''playerId''
       = Some (JString ''76561198000000000'')
   \<and> obj_get (build_request example_open 1
          [(''getTime'', JObject []), (''playerToken'', JNumber 5)]) ''playerToken''
       = Some (JNumber 5)
   \<and> trace (state_of (sendRequest example_open
          [(''getTime'', JObject []), (''playerToken'', JNumber 5)] None)) =
       [Emit Connecting, WsNew ''ws://localhost:28082'', Emit Connected, WsSend [1, 5],
        Emit (Request [(''seq'', JNumber 1)])]"
proof -
  let ?w = example_open
  let ?d = "[(''getTime'', JObject []), (''playerToken'', JNumber 5)]"
  let ?ws = "\<lparr>url = ''ws://localhost:28082'', readyState = OPEN\<rparr>"
  have rq: "AppRequest ?w = Some (Proto_AppRequest example_proto)"
    and ws: "websocket ?w = Ref ?ws"
    by (simp_all only: example_opened)
  have op: "readyState ?ws = OPEN" by simp
  have di: "distinct (map fst ?d)" by simp
  have ob: "build_request ?w 1 ?d = build_request ?w (js_increment (seq ?w)) ?d"
    by (simp only: example_opened) (simp add: js_increment_def)
  have enc: "toBinary (Proto_AppRequest example_proto) (build_request ?w 1 ?d) = Some [1, 5]"
    by (simp add: example_proto_def example_toBinary_def build_request_def byte_of_def obj_get_def
          example_opened)
  have unb: "fromBinary (Proto_AppRequest example_proto) [1, 5] = [(''seq'', JNumber 1)]"
    by (simp add: example_proto_def)
  note t = caller_fields_override [OF rq ws op di ob enc, of None]
  have f1: "obj_get (build_request ?w 1 ?d) ''seq'' = Some (JNumber 1)"
    using t by (simp add: obj_get_def example_opened js_increment_def)
  have f2: "obj_get (build_request ?w 1 ?d) ''playerId'' = Some (JString ''76561198000000000'')"
    using t by (simp add: obj_get_def example_opened)
  have f3: "obj_get (build_request ?w 1 ?d) ''playerToken'' = Some (JNumber 5)"
    using t by (simp add: obj_get_def)
  have f4: "trace (state_of (sendRequest ?w ?d None)) =
      [Emit Connecting, WsNew ''ws://localhost:28082'', Emit Connected, WsSend [1, 5],
       Emit (Request [(''seq'', JNumber 1)])]"
    using t by (simp add: unb example_opened)
  show ?thesis using rq ws op di enc f1 f2 f3 f4 by blast
qed

section \<open>Sequence numbers\<close>




text \<open>
  The bound of C1 is needed: at \<open>2 ^ 53\<close> the increment no longer moves the counter, and
  a client that has got there assigns \<open>2 ^ 53\<close> to every further request.
\<close>

lemma sequence_number_saturates:
  assumes "AppRequest w = Some rq" and "websocket w = Ref ws" and "seq w = 2 ^ 53"
  shows "assigned w [(d, cb), (d', cb')] = [2 ^ 53, 2 ^ 53]"
  using assigned_saturated [OF assms, of "[(d, cb), (d', cb')]"]
  by (simp only: list.size replicate.simps One_nat_def add_0 add_Suc add_Suc_right)

section \<open>The awaitable request\<close>




section \<open>The untyped client behaves alike\<close>

text \<open>
  The handler and the dispatcher of rustplus.js, where the claims about routing and
  sequence numbers name them too, do what those of the typed client do.
\<close>

lemma on_message_js_unmatched:
  assumes "AppMessage w = Some mt" and "pb_decode mt data = Some m" and "matched w m = None"
  shows "on_message_js w data = Returns (emit w (Message m))"
  using assms by (simp add: on_message_js_def emit_message_js_def)

lemma on_message_js_matched:
  assumes "AppMessage w = Some mt" and "pb_decode mt data = Some m"
    and "matched w m = Some (k, cb)" and "invoke k cb m w = Returned res w1"
  shows "on_message_js w data =
           Returns (if truthy res then w1\<lparr>seqCallbacks := (seqCallbacks w1)(k := None)\<rparr>
                    else emit (w1\<lparr>seqCallbacks := (seqCallbacks w1)(k := None)\<rparr>) (Message m))"
  using assms by (simp add: on_message_js_def emit_message_js_def Let_def)

lemma on_message_js_threw:
  assumes "AppMessage w = Some mt" and "pb_decode mt data = Some m"
    and "matched w m = Some (k, cb)" and "invoke k cb m w = Threw e w1"
  shows "on_message_js w data = Throws e w1"
  using assms by (simp add: on_message_js_def)

text \<open>
  C2, C4 and C10 for rustplus.js: when the callback returns there is one call, the entry
  is removed and the event goes by the result; when it throws the entry stays.
\<close>

lemma on_message_js_routes:
  assumes "AppMessage w = Some mt" and "pb_decode mt data = Some m"
    and "matched w m = Some (k, cb)" and "callback_returns cb m v"
  shows "returns (on_message_js w data)
       \<and> trace (state_of (on_message_js w data)) =
           trace w @ Invoke k m # (if truthy v then [] else [Emit (Message m)])
       \<and> seqCallbacks (state_of (on_message_js w data)) = (seqCallbacks w)(k := None)
       \<and> on_message_js (state_of (on_message_js w data)) data =
           Returns (emit (state_of (on_message_js w data)) (Message m))"
proof -
  from assms(3) obtain r where r: "response m = Some r" and k: "resp_seq r = k"
    by (auto simp: matched_Some)
  let ?w1 = "called_state (invoke k cb m w)"
  have call: "invoke k cb m w = Returned v ?w1"
    by (rule invoke_returned [OF assms(4)])
  let ?w2 = "?w1\<lparr>seqCallbacks := (seqCallbacks ?w1)(k := None)\<rparr>"
  let ?w' = "if truthy v then ?w2 else emit ?w2 (Message m)"
  have first: "on_message_js w data = Returns ?w'"
    by (rule on_message_js_matched [OF assms(1-3) call])
  have mt': "AppMessage ?w' = Some mt"
    using assms(1) by (simp add: emit_def invoke_frame)
  have gone: "matched ?w' m = None"
    using r k by (simp add: matched_None emit_def)
  have second: "on_message_js ?w' data = Returns (emit ?w' (Message m))"
    by (rule on_message_js_unmatched [OF mt' assms(2) gone])
  show ?thesis
    using first second by (simp add: emit_def invoke_frame)
qed

lemma on_message_js_throws:
  assumes "AppMessage w = Some mt" and "pb_decode mt data = Some m"
    and "matched w m = Some (k, UserCallback f)" and "f m = Inl e"
  shows "on_message_js w data = Throws e (w\<lparr>trace := trace w @ [Invoke k m]\<rparr>)"
  using on_message_js_threw [OF assms(1-3) invoke_user_throws [of f m e k w, OF assms(4)]] .

text \<open>C7 for rustplus.js.\<close>

lemma on_message_js_zero:
  assumes "AppMessage w = Some mt" and "pb_decode mt data = Some m"
    and "response m = Some r" and "resp_seq r = 0"
  shows "on_message_js w data = Returns (emit w (Message m))"
proof -
  have "matched w m = None" using assms(3,4) by (simp add: matched_def)
  then show ?thesis by (rule on_message_js_unmatched [OF assms(1,2)])
qed

text \<open>
  C1 and C3 for rustplus.js: every call counts, also one that throws; a client with an
  open handle sends the payload spread over its own three fields, when the codec takes
  it; with a handle still connecting it throws, having counted.
\<close>

lemma sendRequest_js_counts:
  "seq (state_of (sendRequest_js w data cb)) = js_increment (seq w)"
  by (cases cb; cases "AppRequest w"; cases "websocket w")
     (simp_all add: sendRequest_js_def Let_def emit_def split: option.splits sum.splits)

lemma sendRequest_js_sends:
  assumes "AppRequest w = Some rq" and "websocket w = Ref ws" and "readyState ws = OPEN"
    and "pb_fromObject rq (payload_js w (js_increment (seq w)) data) = Some ob"
  shows "returns (sendRequest_js w data cb)
       \<and> trace (state_of (sendRequest_js w data cb)) =
           trace w @ [WsSend (pb_encode rq ob), Emit (Request ob)]"
  using assms
  by (cases cb) (simp_all add: sendRequest_js_def Let_def emit_def payload_js_def)

lemma sendRequest_js_connecting:
  assumes "AppRequest w = Some rq" and "websocket w = Ref ws" and "readyState ws = CONNECTING"
    and "pb_fromObject rq (payload_js w (js_increment (seq w)) data) = Some ob"
  shows "\<not> returns (sendRequest_js w data cb)
       \<and> trace (state_of (sendRequest_js w data cb)) = trace w"
  using assms
  by (cases cb) (simp_all add: sendRequest_js_def Let_def emit_def payload_js_def)

lemma payload_js_fields:
  assumes "distinct (map fst data)"
  shows "obj_get (payload_js w n data) k =
           (case obj_get data k of
              Some v \<Rightarrow> Some v
            | None \<Rightarrow> obj_get [(''seq'', JNumber (int n)), (''playerId'', JString (playerId w)),
                                 (''playerToken'', JString (playerToken w))] k)"
  unfolding obj_get_def payload_js_def
  by (rule map_of_spread [OF assms])

text \<open>Where the two differ: without a codec or a handle this one throws, having counted.\<close>

lemma sendRequest_js_unready:
  assumes "AppRequest w = None \<or> absent (websocket w)"
  shows "\<not> returns (sendRequest_js w data cb)"
  using assms
  by (cases cb; cases "AppRequest w"; cases "websocket w")
     (simp_all add: sendRequest_js_def Let_def split: option.splits)

end
